theory Spec2Isabelle
  imports Complex_Main "HOL-Library.AList" "HOL-Library.Multiset" "HOL-Library.Log_Nat"
begin

section \<open>JavaScript numbers\<close>

text \<open>
  The detection loop of \<^verbatim>\<open>server/routes.ts\<close> computes with JavaScript numbers and divides
  by a price that nothing has checked, so the special values of IEEE arithmetic are part
  of what the code does. A number is a finite value, negative zero, an infinity or NaN;
  \<open>Num 0\<close> is positive zero. A JavaScript number is an IEEE 754 double: the result of
  \<^verbatim>\<open>+\<close>, \<^verbatim>\<open>-\<close>, \<^verbatim>\<open>*\<close> and \<^verbatim>\<open>/\<close> on finite operands is the exact result rounded to the
  nearest double, ties to the even mantissa; it overflows to an infinity and underflows
  to a zero of the same sign.
\<close>

datatype jsnum = Num real | NegZero | PosInf | NegInf | NaN

fun sign_bit :: "jsnum \<Rightarrow> bool" where
  "sign_bit (Num r) = (r < 0)"
| "sign_bit NegZero = True"
| "sign_bit PosInf = False"
| "sign_bit NegInf = True"
| "sign_bit NaN = False"

fun is_inf :: "jsnum \<Rightarrow> bool" where
  "is_inf PosInf = True"
| "is_inf NegInf = True"
| "is_inf _ = False"

fun is_zero :: "jsnum \<Rightarrow> bool" where
  "is_zero (Num r) = (r = 0)"
| "is_zero NegZero = True"
| "is_zero _ = False"

fun val :: "jsnum \<Rightarrow> real" where
  "val (Num r) = r"
| "val _ = 0"

definition zero_of :: "bool \<Rightarrow> jsnum" where
  "zero_of neg = (if neg then NegZero else Num 0)"

definition inf_of :: "bool \<Rightarrow> jsnum" where
  "inf_of neg = (if neg then NegInf else PosInf)"

text \<open>
  Rounding. A double is \<open>m * 2 ^ e\<close> with a mantissa \<open>m\<close> below \<open>2 ^ 53\<close> and an exponent
  \<open>e\<close> from \<open>-1074\<close> to \<open>971\<close>. \<open>rne\<close> rounds a non-negative real to the nearest integer,
  a tie to the even one; \<open>pow2 e\<close> is \<open>2 ^ e\<close>; \<open>ilog2 a\<close> is the integer part of the binary
  logarithm of a positive real, so \<open>ilog2 a - 52\<close> is the exponent that puts the mantissa of
  \<open>a\<close> between \<open>2 ^ 52\<close> and \<open>2 ^ 53\<close>; no exponent below \<open>-1074\<close> is used, which gives
  the subnormal numbers their shorter mantissa. A mantissa rounded up to \<open>2 ^ 53\<close> at the
  largest exponent is an overflow.
\<close>

definition rne :: "real \<Rightarrow> int" where
  "rne q =
     (let f = \<lfloor>q\<rfloor>; d = q - of_int f
      in if d < 1 / 2 then f
         else if 1 / 2 < d then f + 1
         else if even f then f else f + 1)"

definition pow2 :: "int \<Rightarrow> real" where
  "pow2 e = (if 0 \<le> e then 2 ^ nat e else 1 / 2 ^ nat (- e))"

definition ilog2 :: "real \<Rightarrow> int" where
  "ilog2 a = (if 1 \<le> a then bitlen \<lfloor>a\<rfloor> - 1 else - bitlen (\<lceil>1 / a\<rceil> - 1))"

definition round_double :: "real \<Rightarrow> jsnum" where
  "round_double x =
     (if x = 0 then Num 0
      else
        (let a = \<bar>x\<bar>;
             e = max (ilog2 a - 52) (- 1074);
             m = rne (a / pow2 e)
         in if 971 < e \<or> (e = 971 \<and> 2 ^ 53 \<le> m) then inf_of (x < 0)
            else if m = 0 then zero_of (x < 0)
            else Num (sgn x * of_int m * pow2 e)))"

text \<open>\<^verbatim>\<open>a + b\<close>\<close>

fun js_add :: "jsnum \<Rightarrow> jsnum \<Rightarrow> jsnum" where
  "js_add NaN b = NaN"
| "js_add a NaN = NaN"
| "js_add PosInf NegInf = NaN"
| "js_add NegInf PosInf = NaN"
| "js_add PosInf b = PosInf"
| "js_add NegInf b = NegInf"
| "js_add a PosInf = PosInf"
| "js_add a NegInf = NegInf"
| "js_add NegZero NegZero = NegZero"
| "js_add NegZero (Num b) = round_double b"
| "js_add (Num a) NegZero = round_double a"
| "js_add (Num a) (Num b) = round_double (a + b)"

text \<open>\<^verbatim>\<open>a - b\<close>\<close>

fun js_sub :: "jsnum \<Rightarrow> jsnum \<Rightarrow> jsnum" where
  "js_sub NaN b = NaN"
| "js_sub a NaN = NaN"
| "js_sub PosInf PosInf = NaN"
| "js_sub NegInf NegInf = NaN"
| "js_sub PosInf b = PosInf"
| "js_sub NegInf b = NegInf"
| "js_sub a PosInf = NegInf"
| "js_sub a NegInf = PosInf"
| "js_sub NegZero NegZero = Num 0"
| "js_sub NegZero (Num b) = (if b = 0 then NegZero else round_double (- b))"
| "js_sub (Num a) NegZero = round_double a"
| "js_sub (Num a) (Num b) = round_double (a - b)"

text \<open>\<^verbatim>\<open>a * b\<close>\<close>

definition js_mul :: "jsnum \<Rightarrow> jsnum \<Rightarrow> jsnum" where
  "js_mul a b =
     (if a = NaN \<or> b = NaN then NaN
      else if (is_inf a \<and> is_zero b) \<or> (is_zero a \<and> is_inf b) then NaN
      else if is_inf a \<or> is_inf b then inf_of (sign_bit a \<noteq> sign_bit b)
      else if is_zero a \<or> is_zero b then zero_of (sign_bit a \<noteq> sign_bit b)
      else round_double (val a * val b))"

text \<open>\<^verbatim>\<open>a / b\<close>: a non-zero number over a zero is an infinity, zero over zero is NaN.\<close>

definition js_div :: "jsnum \<Rightarrow> jsnum \<Rightarrow> jsnum" where
  "js_div a b =
     (if a = NaN \<or> b = NaN then NaN
      else if (is_inf a \<and> is_inf b) \<or> (is_zero a \<and> is_zero b) then NaN
      else if is_inf a \<or> is_zero b then inf_of (sign_bit a \<noteq> sign_bit b)
      else if is_inf b \<or> is_zero a then zero_of (sign_bit a \<noteq> sign_bit b)
      else round_double (val a / val b))"

text \<open>\<^verbatim>\<open>Math.abs(a)\<close>\<close>

fun js_abs :: "jsnum \<Rightarrow> jsnum" where
  "js_abs (Num r) = Num \<bar>r\<bar>"
| "js_abs NegZero = Num 0"
| "js_abs PosInf = PosInf"
| "js_abs NegInf = PosInf"
| "js_abs NaN = NaN"

text \<open>\<^verbatim>\<open>Math.min(a, b)\<close>: NaN if either is NaN, and negative zero is below positive zero.\<close>

fun js_min :: "jsnum \<Rightarrow> jsnum \<Rightarrow> jsnum" where
  "js_min NaN b = NaN"
| "js_min a NaN = NaN"
| "js_min NegInf b = NegInf"
| "js_min a NegInf = NegInf"
| "js_min PosInf b = b"
| "js_min a PosInf = a"
| "js_min NegZero NegZero = NegZero"
| "js_min NegZero (Num b) = (if b < 0 then Num b else NegZero)"
| "js_min (Num a) NegZero = (if a < 0 then Num a else NegZero)"
| "js_min (Num a) (Num b) = (if b < a then Num b else Num a)"

text \<open>\<^verbatim>\<open>a < b\<close> and \<^verbatim>\<open>a > b\<close>: false when either side is NaN; the two zeros are equal.\<close>

fun js_lt :: "jsnum \<Rightarrow> jsnum \<Rightarrow> bool" where
  "js_lt NaN b = False"
| "js_lt a NaN = False"
| "js_lt a NegInf = False"
| "js_lt PosInf b = False"
| "js_lt NegInf b = True"
| "js_lt a PosInf = True"
| "js_lt a b = (val a < val b)"

definition js_gt :: "jsnum \<Rightarrow> jsnum \<Rightarrow> bool" where
  "js_gt a b = js_lt b a"

section \<open>The schema\<close>

text \<open>
  The row types of the shared schema. A \<^verbatim>\<open>serial\<close> or \<^verbatim>\<open>integer\<close> column is an
  \<open>int\<close>, a \<^verbatim>\<open>timestamp\<close> is the number of milliseconds since the epoch, a nullable
  column is an \<open>option\<close>. A \<^verbatim>\<open>decimal\<close> column holds the text of a number: the
  opportunity columns written by the detection loop keep the JavaScript number whose
  \<^verbatim>\<open>toString()\<close> they are, the transaction columns read back by \<^verbatim>\<open>parseFloat\<close> keep
  the finite value they denote.
\<close>

record Exchange =
  ex_id :: int
  ex_name :: string
  ex_apiUrl :: string
  ex_isActive :: bool

record TradingPair =
  tp_id :: int
  baseSymbol :: string
  quoteSymbol :: string
  tp_name :: string
  tp_isActive :: bool

record InsertArbitrageOpportunity =
  tradingPairId :: int
  exchangeAId :: int
  exchangeBId :: int
  priceA :: jsnum
  priceB :: jsnum
  profitMargin :: jsnum
  estimatedProfit :: jsnum
  gasEstimate :: jsnum
  isExecutable :: bool

record ArbitrageOpportunity = InsertArbitrageOpportunity +
  opp_id :: int
  createdAt :: int

record InsertTransaction =
  opportunityId :: int
  status :: string
  txHash :: "string option"
  actualProfit :: "real option"
  gasUsed :: "real option"

record Transaction = InsertTransaction +
  tx_id :: int
  executedAt :: int

record InsertBotSettings =
  minProfitThreshold :: string
  maxGasPrice :: string
  tradeAmount :: string
  slippageTolerance :: string
  autoExecuteEnabled :: bool
  alertsEnabled :: bool

record BotSettings = InsertBotSettings +
  bs_id :: int
  updatedAt :: int

text \<open>\<^verbatim>\<open>Partial<InsertBotSettings>\<close>: every field may be absent.\<close>

record PartialBotSettings =
  p_minProfitThreshold :: "string option"
  p_maxGasPrice :: "string option"
  p_tradeAmount :: "string option"
  p_slippageTolerance :: "string option"
  p_autoExecuteEnabled :: "bool option"
  p_alertsEnabled :: "bool option"

record PriceData =
  symbol :: string
  price :: jsnum
  exchange :: string
  timestamp :: int

record StatsOverview =
  totalProfit24h :: real
  activeOpportunities :: nat
  successRate :: real
  gasSpent24h :: real
  scannedPairs :: nat

section \<open>The in-memory store\<close>

text \<open>
  \<^verbatim>\<open>MemStorage\<close> keeps each table in a JavaScript \<^verbatim>\<open>Map\<close> from id to row. A
  \<^verbatim>\<open>Map\<close> iterates in insertion order, so it is an association list:
  \<^verbatim>\<open>set\<close> overwrites in place or appends (\<open>AList.update\<close>), \<^verbatim>\<open>delete\<close> removes the
  key (\<open>AList.delete\<close>), \<^verbatim>\<open>values()\<close> is \<open>map snd\<close>. Every operation that reads the
  clock (\<^verbatim>\<open>new Date()\<close>, \<^verbatim>\<open>Date.now()\<close>) takes the reading as \<open>now\<close>.
\<close>

record MemStorage =
  exchanges :: "(int \<times> Exchange) list"
  tradingPairs :: "(int \<times> TradingPair) list"
  arbitrageOpportunities :: "(int \<times> ArbitrageOpportunity) list"
  transactions :: "(int \<times> Transaction) list"
  botSettings :: BotSettings
  currentId :: int

definition defaultExchanges :: "(string \<times> string) list" where
  "defaultExchanges =
     [(''QuickSwap'', ''https://api.quickswap.exchange''),
      (''SushiSwap'', ''https://api.sushi.com''),
      (''Uniswap V3'', ''https://api.uniswap.org''),
      (''Balancer'', ''https://api.balancer.fi''),
      (''Curve'', ''https://api.curve.fi''),
      (''1inch'', ''https://api.1inch.dev'')]"

definition defaultPairs :: "(string \<times> string \<times> string) list" where
  "defaultPairs =
     [(''BTC'', ''USDC'', ''BTC/USDC''),
      (''ETH'', ''USDT'', ''ETH/USDT''),
      (''MATIC'', ''USDC'', ''MATIC/USDC''),
      (''WBTC'', ''ETH'', ''WBTC/ETH''),
      (''LINK'', ''ETH'', ''LINK/ETH'')]"

definition defaultSettings :: InsertBotSettings where
  "defaultSettings =
     \<lparr>minProfitThreshold = ''1.5'', maxGasPrice = ''50'', tradeAmount = ''1000'',
      slippageTolerance = ''0.5'', autoExecuteEnabled = True, alertsEnabled = True\<rparr>"

definition initializeDefaultData :: "MemStorage \<Rightarrow> MemStorage" where
  "initializeDefaultData s =
     (let s1 = fold (\<lambda>(n, url) st.
                  st\<lparr>exchanges := AList.update (currentId st)
                        \<lparr>ex_id = currentId st, ex_name = n, ex_apiUrl = url, ex_isActive = True\<rparr>
                        (exchanges st),
                      currentId := currentId st + 1\<rparr>) defaultExchanges s
      in fold (\<lambda>(b, q, n) st.
                  st\<lparr>tradingPairs := AList.update (currentId st)
                        \<lparr>tp_id = currentId st, baseSymbol = b, quoteSymbol = q, tp_name = n,
                         tp_isActive = True\<rparr>
                        (tradingPairs st),
                      currentId := currentId st + 1\<rparr>) defaultPairs s1)"

text \<open>The constructor.\<close>

definition MemStorage_new :: "int \<Rightarrow> MemStorage" where
  "MemStorage_new now =
     initializeDefaultData
       \<lparr>exchanges = [], tradingPairs = [], arbitrageOpportunities = [], transactions = [],
        botSettings = InsertBotSettings.extend defaultSettings
                        (BotSettings.fields 1 now),
        currentId = 1\<rparr>"

definition getAllExchanges :: "MemStorage \<Rightarrow> Exchange list" where
  "getAllExchanges s = filter ex_isActive (map snd (exchanges s))"

definition getAllTradingPairs :: "MemStorage \<Rightarrow> TradingPair list" where
  "getAllTradingPairs s = filter tp_isActive (map snd (tradingPairs s))"

text \<open>
  \<^verbatim>\<open>createExchange\<close> and \<^verbatim>\<open>createTradingPair\<close>; the row to insert is given by its
  fields.
\<close>

definition createExchange :: "MemStorage \<Rightarrow> string \<Rightarrow> string \<Rightarrow> bool \<Rightarrow> Exchange \<times> MemStorage" where
  "createExchange s n url active =
     (let id = currentId s;
          newExchange = \<lparr>ex_id = id, ex_name = n, ex_apiUrl = url, ex_isActive = active\<rparr>
      in (newExchange,
          s\<lparr>currentId := id + 1, exchanges := AList.update id newExchange (exchanges s)\<rparr>))"

definition createTradingPair ::
  "MemStorage \<Rightarrow> string \<Rightarrow> string \<Rightarrow> string \<Rightarrow> bool \<Rightarrow> TradingPair \<times> MemStorage" where
  "createTradingPair s b q n active =
     (let id = currentId s;
          newPair = \<lparr>tp_id = id, baseSymbol = b, quoteSymbol = q, tp_name = n,
                     tp_isActive = active\<rparr>
      in (newPair,
          s\<lparr>currentId := id + 1, tradingPairs := AList.update id newPair (tradingPairs s)\<rparr>))"

text \<open>
  \<^verbatim>\<open>xs.slice(0, limit)\<close>: a negative \<open>limit\<close> counts from the end of the array.
\<close>

definition slice0 :: "'a list \<Rightarrow> int \<Rightarrow> 'a list" where
  "slice0 xs limit =
     (if limit < 0 then take (nat (int (length xs) + limit)) xs else take (nat limit) xs)"

text \<open>
  \<^verbatim>\<open>getArbitrageOpportunities(limit)\<close>: the rows by \<^verbatim>\<open>createdAt\<close>, newest first
  (\<^verbatim>\<open>Array.prototype.sort\<close> is stable), cut at \<open>limit\<close>, each joined with its trading pair and
  its two exchanges (\<open>None\<close> where \<^verbatim>\<open>Map.get\<close> gives \<^verbatim>\<open>undefined\<close>). The clock is not
  read.
\<close>

definition getArbitrageOpportunities ::
  "MemStorage \<Rightarrow> int \<Rightarrow>
   (ArbitrageOpportunity \<times> TradingPair option \<times> Exchange option \<times> Exchange option) list" where
  "getArbitrageOpportunities s limit =
     (let opportunities =
            slice0 (sort_key (\<lambda>opp. - createdAt opp) (map snd (arbitrageOpportunities s))) limit
      in map (\<lambda>opp. (opp,
                     map_of (tradingPairs s) (tradingPairId opp),
                     map_of (exchanges s) (exchangeAId opp),
                     map_of (exchanges s) (exchangeBId opp))) opportunities)"

definition createArbitrageOpportunity ::
  "MemStorage \<Rightarrow> InsertArbitrageOpportunity \<Rightarrow> int \<Rightarrow> ArbitrageOpportunity \<times> MemStorage" where
  "createArbitrageOpportunity s opportunity now =
     (let id = currentId s;
          newOpportunity = InsertArbitrageOpportunity.extend opportunity
                             (ArbitrageOpportunity.fields id now)
      in (newOpportunity,
          s\<lparr>currentId := id + 1,
            arbitrageOpportunities := AList.update id newOpportunity (arbitrageOpportunities s)\<rparr>))"

text \<open>
  \<^verbatim>\<open>clearOldOpportunities()\<close>: walks the entries and deletes the key of every entry created
  before \<open>now - 60 * 60 * 1000\<close>.
\<close>

definition clearOldOpportunities :: "MemStorage \<Rightarrow> int \<Rightarrow> MemStorage" where
  "clearOldOpportunities s now =
     (let oneHourAgo = now - 60 * 60 * 1000
      in s\<lparr>arbitrageOpportunities :=
             fold (\<lambda>(id, opp) m. if createdAt opp < oneHourAgo then AList.delete id m else m)
                  (arbitrageOpportunities s) (arbitrageOpportunities s)\<rparr>)"

definition getRecentTransactions :: "MemStorage \<Rightarrow> int \<Rightarrow> Transaction list" where
  "getRecentTransactions s limit =
     slice0 (sort_key (\<lambda>tx. - executedAt tx) (map snd (transactions s))) limit"

definition createTransaction ::
  "MemStorage \<Rightarrow> InsertTransaction \<Rightarrow> int \<Rightarrow> Transaction \<times> MemStorage" where
  "createTransaction s transaction now =
     (let id = currentId s;
          newTransaction = InsertTransaction.extend transaction (Transaction.fields id now)
      in (newTransaction,
          s\<lparr>currentId := id + 1,
            transactions := AList.update id newTransaction (transactions s)\<rparr>))"


text \<open>
  The object spread \<^verbatim>\<open>{...old, ...settings}\<close>: a field present in \<open>settings\<close> replaces
  the old one, an absent field leaves it.
\<close>

definition spread_settings :: "'a InsertBotSettings_scheme \<Rightarrow> PartialBotSettings
    \<Rightarrow> 'a InsertBotSettings_scheme" where
  "spread_settings old settings =
     old\<lparr>minProfitThreshold :=
           (case p_minProfitThreshold settings of None \<Rightarrow> minProfitThreshold old | Some v \<Rightarrow> v),
         maxGasPrice :=
           (case p_maxGasPrice settings of None \<Rightarrow> maxGasPrice old | Some v \<Rightarrow> v),
         tradeAmount :=
           (case p_tradeAmount settings of None \<Rightarrow> tradeAmount old | Some v \<Rightarrow> v),
         slippageTolerance :=
           (case p_slippageTolerance settings of None \<Rightarrow> slippageTolerance old | Some v \<Rightarrow> v),
         autoExecuteEnabled :=
           (case p_autoExecuteEnabled settings of None \<Rightarrow> autoExecuteEnabled old | Some v \<Rightarrow> v),
         alertsEnabled :=
           (case p_alertsEnabled settings of None \<Rightarrow> alertsEnabled old | Some v \<Rightarrow> v)\<rparr>"

definition updateBotSettings ::
  "MemStorage \<Rightarrow> PartialBotSettings \<Rightarrow> int \<Rightarrow> BotSettings \<times> MemStorage" where
  "updateBotSettings s settings now =
     (let s' = s\<lparr>botSettings := (spread_settings (botSettings s) settings)\<lparr>updatedAt := now\<rparr>\<rparr>
      in (botSettings s', s'))"

definition getStatsOverview :: "MemStorage \<Rightarrow> int \<Rightarrow> StatsOverview" where
  "getStatsOverview s now =
     (let transactions = getRecentTransactions s 1000;
          opportunities = getArbitrageOpportunities s 1000;
          oneDayAgo = now - 24 * 60 * 60 * 1000;
          recentTransactions = filter (\<lambda>tx. executedAt tx > oneDayAgo) transactions;
          totalProfit24h =
            sum_list (map (\<lambda>tx. the (actualProfit tx))
              (filter (\<lambda>tx. status tx = ''success'' \<and> actualProfit tx \<noteq> None)
                 recentTransactions));
          gasSpent24h =
            sum_list (map (\<lambda>tx. the (gasUsed tx))
              (filter (\<lambda>tx. gasUsed tx \<noteq> None) recentTransactions));
          successfulTxs = length (filter (\<lambda>tx. status tx = ''success'') recentTransactions);
          successRate =
            (if length recentTransactions > 0
             then (real successfulTxs / real (length recentTransactions)) * 100
             else 0)
      in \<lparr>totalProfit24h = totalProfit24h,
          activeOpportunities = length opportunities,
          successRate = successRate,
          gasSpent24h = gasSpent24h,
          scannedPairs = length (tradingPairs s)\<rparr>)"

section \<open>The database store\<close>

text \<open>
  \<^verbatim>\<open>DatabaseStorage\<close> runs the same operations as queries. A table is the list of its
  rows, \<^verbatim>\<open>limit(1)\<close> and the pattern \<^verbatim>\<open>const [row] = ...\<close> take the first row if there
  is one, and \<open>seq_botSettings\<close> is the next value of the \<^verbatim>\<open>serial\<close> id.
\<close>

record Database =
  tbl_exchanges :: "Exchange list"
  tbl_tradingPairs :: "TradingPair list"
  tbl_arbitrageOpportunities :: "ArbitrageOpportunity list"
  tbl_transactions :: "Transaction list"
  tbl_botSettings :: "BotSettings list"
  seq_botSettings :: int


definition DatabaseStorage_clearOldOpportunities :: "Database \<Rightarrow> int \<Rightarrow> Database" where
  "DatabaseStorage_clearOldOpportunities db now =
     (let oneHourAgo = now - 60 * 60 * 1000
      in db\<lparr>tbl_arbitrageOpportunities :=
              filter (\<lambda>opp. \<not> createdAt opp < oneHourAgo) (tbl_arbitrageOpportunities db)\<rparr>)"



text \<open>
  \<^verbatim>\<open>getStatsOverview()\<close>: the query behind \<open>recentTransactions\<close> selects the rows with
  \<^verbatim>\<open>status = 'success'\<close> executed before now; everything else is computed from its result.
  The two readings of the clock, for \<open>oneDayAgo\<close> and for the query, are one instant \<open>now\<close>.
\<close>

definition DatabaseStorage_getStatsOverview :: "Database \<Rightarrow> int \<Rightarrow> StatsOverview" where
  "DatabaseStorage_getStatsOverview db now =
     (let oneDayAgo = now - 24 * 60 * 60 * 1000;
          recentTransactions =
            filter (\<lambda>tx. status tx = ''success'' \<and> executedAt tx < now) (tbl_transactions db);
          recentSuccessfulTransactions =
            filter (\<lambda>tx. executedAt tx > oneDayAgo \<and> status tx = ''success'') recentTransactions;
          totalProfit24h =
            sum_list (map (\<lambda>tx. the (actualProfit tx))
              (filter (\<lambda>tx. actualProfit tx \<noteq> None) recentSuccessfulTransactions));
          gasSpent24h =
            sum_list (map (\<lambda>tx. the (gasUsed tx))
              (filter (\<lambda>tx. gasUsed tx \<noteq> None \<and> executedAt tx > oneDayAgo) recentTransactions));
          recent24hTxs = filter (\<lambda>tx. executedAt tx > oneDayAgo) recentTransactions;
          successfulTxs = length (filter (\<lambda>tx. status tx = ''success'') recent24hTxs);
          successRate =
            (if length recent24hTxs > 0
             then (real successfulTxs / real (length recent24hTxs)) * 100
             else 0)
      in \<lparr>totalProfit24h = totalProfit24h,
          activeOpportunities = length (tbl_arbitrageOpportunities db),
          successRate = successRate,
          gasSpent24h = gasSpent24h,
          scannedPairs = length (tbl_tradingPairs db)\<rparr>)"

section \<open>The quote source\<close>

text \<open>
  \<^verbatim>\<open>fetchCryptoPrices\<close> of \<^verbatim>\<open>server/routes.ts\<close>. What the price API did is an input: the
  request failed, or an answer came with its \<^verbatim>\<open>ok\<close> flag, its status and, when the body is
  JSON, the table from coin id to \<^verbatim>\<open>usd\<close> price. The function throws on a failed request,
  on an answer that is not \<^verbatim>\<open>ok\<close> and on a body that is not JSON. Otherwise every coin of
  \<open>coinMapping\<close> that the table knows gets one quote per active exchange, the base price
  varied by up to two percent; the \<open>i\<close>-th quote takes the \<open>i\<close>-th value of
  \<^verbatim>\<open>Math.random()\<close> and the \<open>i\<close>-th reading of the clock. The literal \<^verbatim>\<open>0.04\<close> is the
  double nearest to 0.04.
\<close>

datatype api_response = RequestFailed string | Answer bool int "(string \<times> jsnum) list option"

datatype fetch_error = NetworkError string | ApiError int | BodyError

definition coinMapping :: "(string \<times> string) list" where
  "coinMapping =
     [(''bitcoin'', ''BTC''), (''ethereum'', ''ETH''), (''matic-network'', ''MATIC''),
      (''wrapped-bitcoin'', ''WBTC''), (''chainlink'', ''LINK'')]"

definition fetchCryptoPrices ::
  "(nat \<Rightarrow> real) \<Rightarrow> (nat \<Rightarrow> int) \<Rightarrow> api_response \<Rightarrow> MemStorage
   \<Rightarrow> fetch_error + PriceData list" where
  "fetchCryptoPrices rand clock response s =
     (case response of
        RequestFailed reason \<Rightarrow> Inl (NetworkError reason)
      | Answer ok code body \<Rightarrow>
          if \<not> ok then Inl (ApiError code)
          else (case body of
                  None \<Rightarrow> Inl BodyError
                | Some data \<Rightarrow>
                    (let exchanges = getAllExchanges s;
                         slots = concat (map (\<lambda>(coinId, symbol).
                                   case map_of data coinId of
                                     None \<Rightarrow> []
                                   | Some basePrice \<Rightarrow>
                                       map (\<lambda>exchange. (symbol, basePrice, ex_name exchange))
                                           exchanges) coinMapping)
                     in Inr (map (\<lambda>(i, symbol, basePrice, name).
                                 (let variation = js_mul (js_sub (Num (rand i)) (Num 0.5)) (round_double 0.04)
                                  in \<lparr>symbol = symbol,
                                      price = js_mul basePrice (js_add (Num 1) variation),
                                      exchange = name,
                                      timestamp = clock i\<rparr>))
                              (enumerate 0 slots)))))"

section \<open>The detection cycle\<close>

text \<open>
  \<^verbatim>\<open>calculateArbitrageOpportunities\<close> of \<^verbatim>\<open>server/routes.ts\<close>, on the in-memory store, from
  the point where \<^verbatim>\<open>await fetchCryptoPrices()\<close> returns or throws. The
  loop state is the store and the number \<open>k\<close> of opportunities created so far in the cycle:
  each creation calls \<^verbatim>\<open>Math.random()\<close> once, for the gas estimate, and reads the clock once,
  for \<^verbatim>\<open>createdAt\<close>. \<open>rand k\<close> is the value of the \<open>k\<close>-th call, a number in \<open>[0, 1)\<close>, and
  \<open>clock (Suc k)\<close> the reading at the \<open>k\<close>-th creation; \<open>clock 0\<close> is the reading of
  \<^verbatim>\<open>clearOldOpportunities\<close>.
\<close>

text \<open>The body of the two nested loops, for one pair of quotes (\<^verbatim>\<open>priceA\<close> and
  \<^verbatim>\<open>priceB\<close> in the source).\<close>

definition compareQuotes ::
  "(nat \<Rightarrow> real) \<Rightarrow> (nat \<Rightarrow> int) \<Rightarrow> 'a TradingPair_scheme \<Rightarrow> Exchange list
   \<Rightarrow> PriceData \<Rightarrow> PriceData \<Rightarrow> MemStorage \<times> nat \<Rightarrow> MemStorage \<times> nat" where
  "compareQuotes rand clock pair exs quoteA quoteB st =
     (if exchange quoteA \<noteq> exchange quoteB then
        (let priceDiff = js_abs (js_sub (price quoteA) (price quoteB));
             lowerPrice = js_min (price quoteA) (price quoteB);
             profitMargin = js_mul (js_div priceDiff lowerPrice) (Num 100)
         in if js_gt profitMargin (Num 0.5) then
              (case (find (\<lambda>e. ex_name e = exchange quoteA) exs,
                     find (\<lambda>e. ex_name e = exchange quoteB) exs) of
                 (Some exchangeA, Some exchangeB) \<Rightarrow>
                   (let tradeAmount = Num 1000;
                        estimatedProfit = js_mul (js_div priceDiff lowerPrice) tradeAmount;
                        gasEstimate = js_add (js_mul (Num (rand (snd st))) (Num 10)) (Num 2)
                    in (snd (createArbitrageOpportunity (fst st)
                          \<lparr>tradingPairId = tp_id pair,
                           exchangeAId = ex_id exchangeA,
                           exchangeBId = ex_id exchangeB,
                           priceA = price quoteA,
                           priceB = price quoteB,
                           profitMargin = profitMargin,
                           estimatedProfit = estimatedProfit,
                           gasEstimate = gasEstimate,
                           isExecutable = (js_gt profitMargin (Num 1.5)
                                           \<and> js_lt gasEstimate estimatedProfit)\<rparr>
                          (clock (Suc (snd st)))),
                        Suc (snd st)))
               | _ \<Rightarrow> st)
            else st)
      else st)"

text \<open>\<^verbatim>\<open>for (let j = i + 1; j < pairPrices.length; j++)\<close>, over the quotes after \<open>quoteA\<close>.\<close>

fun innerLoop ::
  "(nat \<Rightarrow> real) \<Rightarrow> (nat \<Rightarrow> int) \<Rightarrow> 'a TradingPair_scheme \<Rightarrow> Exchange list
   \<Rightarrow> PriceData \<Rightarrow> PriceData list \<Rightarrow> MemStorage \<times> nat \<Rightarrow> MemStorage \<times> nat" where
  "innerLoop rand clock pair exs quoteA [] st = st"
| "innerLoop rand clock pair exs quoteA (quoteB # rest) st =
     innerLoop rand clock pair exs quoteA rest
       (compareQuotes rand clock pair exs quoteA quoteB st)"

text \<open>\<^verbatim>\<open>for (let i = 0; i < pairPrices.length; i++)\<close>\<close>

fun outerLoop ::
  "(nat \<Rightarrow> real) \<Rightarrow> (nat \<Rightarrow> int) \<Rightarrow> 'a TradingPair_scheme \<Rightarrow> Exchange list
   \<Rightarrow> PriceData list \<Rightarrow> MemStorage \<times> nat \<Rightarrow> MemStorage \<times> nat" where
  "outerLoop rand clock pair exs [] st = st"
| "outerLoop rand clock pair exs (quoteA # rest) st =
     outerLoop rand clock pair exs rest (innerLoop rand clock pair exs quoteA rest st)"

text \<open>\<^verbatim>\<open>for (const pair of tradingPairs)\<close>\<close>

fun pairsLoop ::
  "(nat \<Rightarrow> real) \<Rightarrow> (nat \<Rightarrow> int) \<Rightarrow> Exchange list \<Rightarrow> PriceData list
   \<Rightarrow> 'a TradingPair_scheme list \<Rightarrow> MemStorage \<times> nat \<Rightarrow> MemStorage \<times> nat" where
  "pairsLoop rand clock exs prices [] st = st"
| "pairsLoop rand clock exs prices (pair # rest) st =
     pairsLoop rand clock exs prices rest
       (outerLoop rand clock pair exs
          (filter (\<lambda>p. symbol p = baseSymbol pair) prices) st)"

text \<open>
  The cycle. \<open>fetched\<close> is what \<^verbatim>\<open>await fetchCryptoPrices()\<close> gave: \<open>Inl\<close> the error it threw, or
  \<open>Inr\<close> the quotes. The result is the error that the \<^verbatim>\<open>catch\<close> block logged, if any, and the
  store.
\<close>

definition calculateArbitrageOpportunities ::
  "(nat \<Rightarrow> real) \<Rightarrow> (nat \<Rightarrow> int) \<Rightarrow> fetch_error + PriceData list \<Rightarrow> MemStorage
   \<Rightarrow> fetch_error option \<times> MemStorage" where
  "calculateArbitrageOpportunities rand clock fetched s =
     (case fetched of
        Inl error \<Rightarrow> (Some error, s)
      | Inr prices \<Rightarrow>
          (let tradingPairs = getAllTradingPairs s;
               exchanges = getAllExchanges s;
               s1 = clearOldOpportunities s (clock 0)
           in (None, fst (pairsLoop rand clock exchanges prices tradingPairs (s1, 0)))))"

text \<open>
  One whole cycle, as the timer or \<^verbatim>\<open>POST /api/refresh\<close> starts it: the fetch, then the rest
  of \<^verbatim>\<open>calculateArbitrageOpportunities\<close> on its outcome. The fetch has used up one random
  value and one clock reading per quote.
\<close>

definition detectionCycle ::
  "(nat \<Rightarrow> real) \<Rightarrow> (nat \<Rightarrow> int) \<Rightarrow> api_response \<Rightarrow> MemStorage
   \<Rightarrow> fetch_error option \<times> MemStorage" where
  "detectionCycle rand clock response s =
     (let fetched = fetchCryptoPrices rand clock response s;
          n = (case fetched of Inl _ \<Rightarrow> 0 | Inr prices \<Rightarrow> length prices)
      in calculateArbitrageOpportunities (\<lambda>k. rand (n + k)) (\<lambda>k. clock (n + k)) fetched s)"

section \<open>Execution\<close>

text \<open>
  The handler of \<^verbatim>\<open>POST /api/execute/:opportunityId\<close>. \<open>rand\<close> is the sequence of values of
  \<^verbatim>\<open>Math.random()\<close> in call order, \<open>hex\<close> stands for
  \<^verbatim>\<open>x.toString(16).substring(2, 66)\<close>, and the answer is the JSON body or the status 500 of
  the \<^verbatim>\<open>catch\<close> block.
\<close>

datatype response = Json Transaction | Status500 string

definition executeOpportunity ::
  "(nat \<Rightarrow> real) \<Rightarrow> (real \<Rightarrow> string) \<Rightarrow> int \<Rightarrow> MemStorage \<Rightarrow> int
   \<Rightarrow> response \<times> MemStorage" where
  "executeOpportunity rand hex now s oppId =
     (let success = (rand 0 > 0.1);
          actualProfit = (if success then rand 1 * 100 + 20 else 0);
          k = (if success then 2 else 1);
          gasUsed = rand k * 10 + 2;
          (transaction, s') = createTransaction s
             \<lparr>opportunityId = oppId,
              status = (if success then ''success'' else ''failed''),
              txHash = (if success then Some (''0x'' @ hex (rand (k + 1))) else None),
              actualProfit = (if success then Some actualProfit else None),
              gasUsed = Some gasUsed\<rparr> now
      in (Json transaction, s'))"

section \<open>Reachable stores\<close>

text \<open>
  What a \<^verbatim>\<open>Map\<close> filled under ids from \<^verbatim>\<open>currentId++\<close> guarantees: the keys of each map
  are distinct and below the next id, and an exchange is stored under its own id.
\<close>

definition keys_below :: "int \<Rightarrow> (int \<times> 'a) list \<Rightarrow> bool" where
  "keys_below n m \<longleftrightarrow> distinct (map fst m) \<and> (\<forall>k \<in> fst ` set m. k < n)"

definition MemStorage_inv :: "MemStorage \<Rightarrow> bool" where
  "MemStorage_inv s \<longleftrightarrow>
     keys_below (currentId s) (exchanges s)
     \<and> keys_below (currentId s) (tradingPairs s)
     \<and> keys_below (currentId s) (arbitrageOpportunities s)
     \<and> keys_below (currentId s) (transactions s)
     \<and> (\<forall>(k, e) \<in> set (exchanges s). ex_id e = k)"

text \<open>The stores that the constructor and the operations produce.\<close>

inductive reachable :: "MemStorage \<Rightarrow> bool" where
  constructed: "reachable (MemStorage_new now)"
| exchange_created: "reachable s \<Longrightarrow> reachable (snd (createExchange s n url active))"
| pair_created: "reachable s \<Longrightarrow> reachable (snd (createTradingPair s b q n active))"
| opportunity_created: "reachable s \<Longrightarrow> reachable (snd (createArbitrageOpportunity s ins now))"
| cleared: "reachable s \<Longrightarrow> reachable (clearOldOpportunities s now)"
| transaction_created: "reachable s \<Longrightarrow> reachable (snd (createTransaction s tx now))"
| settings_updated: "reachable s \<Longrightarrow> reachable (snd (updateBotSettings s settings now))"
| cycle_run:
    "reachable s \<Longrightarrow> reachable (snd (calculateArbitrageOpportunities rand clock fetched s))"
| executed: "reachable s \<Longrightarrow> reachable (snd (executeOpportunity rand hex now s oppId))"

section \<open>What the specification says\<close>

text \<open>
  The statistics as the specification words them, over the list of recorded transactions:
  the trailing window holds the transactions executed after \<open>now - 24h\<close>, a missing
  amount counts as zero.
\<close>

definition window24h :: "Transaction list \<Rightarrow> int \<Rightarrow> Transaction list" where
  "window24h txs now = filter (\<lambda>tx. now - 24 * 60 * 60 * 1000 < executedAt tx) txs"

definition amount :: "real option \<Rightarrow> real" where
  "amount v = (case v of None \<Rightarrow> 0 | Some x \<Rightarrow> x)"

definition spec_successRate :: "Transaction list \<Rightarrow> int \<Rightarrow> real" where
  "spec_successRate txs now =
     (if window24h txs now = [] then 0
      else real (length (filter (\<lambda>tx. status tx = ''success'') (window24h txs now)))
             / real (length (window24h txs now)) * 100)"

definition spec_totalProfit24h :: "Transaction list \<Rightarrow> int \<Rightarrow> real" where
  "spec_totalProfit24h txs now =
     sum_list (map (\<lambda>tx. amount (actualProfit tx))
                (filter (\<lambda>tx. status tx = ''success'') (window24h txs now)))"

definition spec_gasSpent24h :: "Transaction list \<Rightarrow> int \<Rightarrow> real" where
  "spec_gasSpent24h txs now =
     sum_list (map (\<lambda>tx. amount (gasUsed tx)) (window24h txs now))"

section \<open>Loop invariant and frame condition\<close>

text \<open>
  The invariant of the detection loops: what every opportunity that the loop body creates
  looks like, given the exchanges \<open>exs\<close> that the cycle read.
\<close>

definition detected :: "Exchange list \<Rightarrow> ArbitrageOpportunity \<Rightarrow> bool" where
  "detected exs opp \<longleftrightarrow>
     (\<exists>exchangeA \<in> set exs. \<exists>exchangeB \<in> set exs.
         ex_name exchangeA \<noteq> ex_name exchangeB
         \<and> exchangeAId opp = ex_id exchangeA \<and> exchangeBId opp = ex_id exchangeB)
     \<and> profitMargin opp =
           js_mul (js_div (js_abs (js_sub (priceA opp) (priceB opp)))
                          (js_min (priceA opp) (priceB opp))) (Num 100)
     \<and> js_gt (profitMargin opp) (Num 0.5)
     \<and> estimatedProfit opp =
           js_mul (js_div (js_abs (js_sub (priceA opp) (priceB opp)))
                          (js_min (priceA opp) (priceB opp))) (Num 1000)
     \<and> isExecutable opp =
           (js_gt (profitMargin opp) (Num 1.5) \<and> js_lt (gasEstimate opp) (estimatedProfit opp))"


section \<open>Example inputs\<close>

text \<open>Concrete stores, quotes and transactions on which the theorems below are evaluated.\<close>

text \<open>Two BTC quotes 1.6 percent apart (scenario A of the specification).\<close>

definition quoteQuickSwap :: PriceData where
  "quoteQuickSwap =
     \<lparr>symbol = ''BTC'', price = Num 50000, exchange = ''QuickSwap'', timestamp = 0\<rparr>"

definition quoteSushiSwap :: PriceData where
  "quoteSushiSwap =
     \<lparr>symbol = ''BTC'', price = Num 50800, exchange = ''SushiSwap'', timestamp = 0\<rparr>"

text \<open>The opportunity that the cycle makes of them; its margin is the double nearest to
  1.6.\<close>

definition scenarioA_opportunity :: ArbitrageOpportunity where
  "scenarioA_opportunity =
     \<lparr>tradingPairId = 7, exchangeAId = 1, exchangeBId = 2, priceA = Num 50000,
      priceB = Num 50800, profitMargin = Num (3602879701896397 / 2251799813685248),
      estimatedProfit = Num 16,
      gasEstimate = Num 7, isExecutable = True, opp_id = 12, createdAt = 5\<rparr>"

text \<open>Two ETH quotes one percent apart: above the filter, below the executable margin.\<close>

definition quoteBalancer :: PriceData where
  "quoteBalancer =
     \<lparr>symbol = ''ETH'', price = Num 3000, exchange = ''Balancer'', timestamp = 0\<rparr>"

definition quoteCurve :: PriceData where
  "quoteCurve =
     \<lparr>symbol = ''ETH'', price = Num 3030, exchange = ''Curve'', timestamp = 0\<rparr>"

definition smallSpread_opportunity :: ArbitrageOpportunity where
  "smallSpread_opportunity =
     \<lparr>tradingPairId = 8, exchangeAId = 4, exchangeBId = 5, priceA = Num 3000,
      priceB = Num 3030, profitMargin = Num 1, estimatedProfit = Num 10,
      gasEstimate = Num 7, isExecutable = False, opp_id = 12, createdAt = 5\<rparr>"

text \<open>
  An ETH quote of 3050 next to the one of 3000: the margin \<open>50 / 3000 * 100\<close> is \<open>5 / 3\<close>
  in real arithmetic, which is no double. The stored margin is the double
  1.6666666666666667.
\<close>

definition quoteOneInch :: PriceData where
  "quoteOneInch =
     \<lparr>symbol = ''ETH'', price = Num 3050, exchange = ''1inch'', timestamp = 0\<rparr>"

definition roundedMargin_opportunity :: ArbitrageOpportunity where
  "roundedMargin_opportunity =
     \<lparr>tradingPairId = 8, exchangeAId = 4, exchangeBId = 6, priceA = Num 3000,
      priceB = Num 3050, profitMargin = Num (7505999378950827 / 4503599627370496),
      estimatedProfit = Num (4691249611844267 / 281474976710656),
      gasEstimate = Num 7, isExecutable = True, opp_id = 12, createdAt = 5\<rparr>"

text \<open>
  A BTC quote of 51300 next to the one of 50000: the stored margin is the double nearest to
  2.6 and the stored profit is 26, but the margin divided by 100 and multiplied by 1000 is
  the double 26.000000000000004.
\<close>

definition quoteUniswap :: PriceData where
  "quoteUniswap =
     \<lparr>symbol = ''BTC'', price = Num 51300, exchange = ''Uniswap V3'', timestamp = 0\<rparr>"

definition roundedProfit_opportunity :: ArbitrageOpportunity where
  "roundedProfit_opportunity =
     \<lparr>tradingPairId = 7, exchangeAId = 1, exchangeBId = 3, priceA = Num 50000,
      priceB = Num 51300, profitMargin = Num (5854679515581645 / 2251799813685248),
      estimatedProfit = Num 26,
      gasEstimate = Num 7, isExecutable = True, opp_id = 12, createdAt = 5\<rparr>"





text \<open>A store with an opportunity created at time 0, and the same store after a second
  creation at time 1.\<close>

definition someOpportunity :: InsertArbitrageOpportunity where
  "someOpportunity =
     \<lparr>tradingPairId = 7, exchangeAId = 1, exchangeBId = 2, priceA = Num 50000,
      priceB = Num 50800, profitMargin = Num 1.6, estimatedProfit = Num 16,
      gasEstimate = Num 7, isExecutable = True\<rparr>"

definition opportunity_at_0 :: ArbitrageOpportunity where
  "opportunity_at_0 = fst (createArbitrageOpportunity (MemStorage_new 0) someOpportunity 0)"

definition store_at_0 :: MemStorage where
  "store_at_0 = snd (createArbitrageOpportunity (MemStorage_new 0) someOpportunity 0)"

definition store_at_1 :: MemStorage where
  "store_at_1 = snd (createArbitrageOpportunity store_at_0 someOpportunity 1)"

text \<open>The store with the opportunity of time 0 and fifty more created at time 1.\<close>

definition store_crowded :: MemStorage where
  "store_crowded =
     fold (\<lambda>ins s. snd (createArbitrageOpportunity s ins 1))
          (replicate 50 someOpportunity) store_at_0"

text \<open>Ten transactions executed at time 1000, nine of them successful (scenario D): as rows
  of the database, and recorded one by one in the in-memory store.\<close>

definition successfulExecution :: InsertTransaction where
  "successfulExecution =
     \<lparr>opportunityId = 12, status = ''success'', txHash = Some ''0xabc'',
      actualProfit = Some 10, gasUsed = Some 3\<rparr>"

definition failedExecution :: InsertTransaction where
  "failedExecution =
     \<lparr>opportunityId = 12, status = ''failed'', txHash = None,
      actualProfit = None, gasUsed = Some 5\<rparr>"

definition scenarioD :: "Transaction list" where
  "scenarioD =
     map (\<lambda>i. InsertTransaction.extend successfulExecution (Transaction.fields i 1000))
         [1, 2, 3, 4, 5, 6, 7, 8, 9]
     @ [InsertTransaction.extend failedExecution (Transaction.fields 10 1000)]"

definition scenarioD_database :: Database where
  "scenarioD_database =
     \<lparr>tbl_exchanges = [], tbl_tradingPairs = [], tbl_arbitrageOpportunities = [],
      tbl_transactions = scenarioD, tbl_botSettings = [], seq_botSettings = 1\<rparr>"

definition scenarioD_memory :: MemStorage where
  "scenarioD_memory =
     fold (\<lambda>tx s. snd (createTransaction s tx 1000))
          (replicate 9 successfulExecution @ [failedExecution]) (MemStorage_new 0)"





text \<open>The definitions that evaluating the initial store unfolds.\<close>

lemmas store_defs = MemStorage_new_def initializeDefaultData_def defaultExchanges_def
  defaultPairs_def defaultSettings_def getAllTradingPairs_def getAllExchanges_def
  InsertBotSettings.defs BotSettings.defs

section \<open>Expiry of opportunities\<close>

text \<open>
  The walk of \<^verbatim>\<open>clearOldOpportunities\<close> removes exactly the keys that carry an entry older
  than the bound.
\<close>

lemma delete_old_keys:
  "fold (\<lambda>(id, opp) m. if createdAt opp < t then AList.delete id m else m) xs m
     = filter (\<lambda>p. \<not> (\<exists>opp. (fst p, opp) \<in> set xs \<and> createdAt opp < t)) m"
proof (induction xs arbitrary: m)
  case Nil
  then show ?case by simp
next
  case (Cons x xs)
  obtain id opp where x: "x = (id, opp)" by (cases x)
  show ?case
  proof (cases "createdAt opp < t")
    case True
    then show ?thesis
      unfolding x by (auto simp: Cons.IH AList.delete_eq intro!: filter_cong)
  next
    case False
    then show ?thesis
      unfolding x by (auto simp: Cons.IH intro!: filter_cong)
  qed
qed

lemma fold_keep_fresh:
  "\<forall>p\<in>set xs. \<not> createdAt (snd p) < t \<Longrightarrow>
   fold (\<lambda>(id, opp) m. if createdAt opp < t then AList.delete id m else m) xs m = m"
  by (induction xs arbitrary: m) auto

lemma cleared_entries_fresh:
  "p \<in> set (fold (\<lambda>(id, opp) m. if createdAt opp < t then AList.delete id m else m) xs xs)
   \<Longrightarrow> \<not> createdAt (snd p) < t"
  by (cases p) (auto simp: delete_old_keys)

lemma MemStorage_clear_idem:
  "clearOldOpportunities (clearOldOpportunities s now) now = clearOldOpportunities s now"
  by (simp add: clearOldOpportunities_def Let_def fold_keep_fresh cleared_entries_fresh)

lemma DatabaseStorage_clear_idem:
  "DatabaseStorage_clearOldOpportunities (DatabaseStorage_clearOldOpportunities db now) now
     = DatabaseStorage_clearOldOpportunities db now"
  by (simp add: DatabaseStorage_clearOldOpportunities_def Let_def)

text \<open>
  Claim C4. Calling \<^verbatim>\<open>clearOldOpportunities\<close> a second time at the same clock reading
  leaves the store as the first call left it, in the in-memory store and in the database
  store alike: the whole store is equal, so nothing is removed and no entry changes.
\<close>

theorem C4_clearOldOpportunities_idempotent:
  "clearOldOpportunities (clearOldOpportunities s now) now = clearOldOpportunities s now
   \<and> DatabaseStorage_clearOldOpportunities (DatabaseStorage_clearOldOpportunities db now) now
       = DatabaseStorage_clearOldOpportunities db now"
  by (simp only: MemStorage_clear_idem DatabaseStorage_clear_idem)

section \<open>A failed quote fetch\<close>

text \<open>The three ways in which \<^verbatim>\<open>fetchCryptoPrices\<close> throws.\<close>

lemma fetch_failures:
  "fetchCryptoPrices rand clock (RequestFailed reason) s = Inl (NetworkError reason)"
  "fetchCryptoPrices rand clock (Answer False code body) s = Inl (ApiError code)"
  "fetchCryptoPrices rand clock (Answer True code None) s = Inl BodyError"
  by (simp_all add: fetchCryptoPrices_def)

text \<open>
  Claim C8. When \<^verbatim>\<open>fetchCryptoPrices\<close> throws, the cycle logs the error and returns; the
  store it leaves is the store it found, so every later read answers as before. The fetch
  is the first statement of the \<^verbatim>\<open>try\<close> block: \<^verbatim>\<open>clearOldOpportunities\<close> has not run yet,
  and nothing is expired however late the clock.
\<close>

theorem C8_failed_fetch_leaves_store_unchanged:
  assumes "fetchCryptoPrices rand clock response s = Inl e"
  shows "detectionCycle rand clock response s = (Some e, s)
   \<and> getArbitrageOpportunities (snd (detectionCycle rand clock response s)) limit
       = getArbitrageOpportunities s limit
   \<and> getStatsOverview (snd (detectionCycle rand clock response s)) now
       = getStatsOverview s now"
  using assms by (simp add: detectionCycle_def calculateArbitrageOpportunities_def)

theorem C8_unavailable_witness:
  "fetchCryptoPrices (\<lambda>_. 0) (\<lambda>_. 7200000) (Answer False 503 None) store_at_0
     = Inl (ApiError 503)
   \<and> detectionCycle (\<lambda>_. 0) (\<lambda>_. 7200000) (Answer False 503 None) store_at_0
     = (Some (ApiError 503), store_at_0)
   \<and> arbitrageOpportunities
        (snd (detectionCycle (\<lambda>_. 0) (\<lambda>_. 7200000) (Answer False 503 None) store_at_0))
     = [(12, opportunity_at_0)]
   \<and> createdAt opportunity_at_0 + 60 * 60 * 1000 < 7200000"
proof -
  have h: "fetchCryptoPrices (\<lambda>_. 0) (\<lambda>_. 7200000) (Answer False 503 None) store_at_0
     = Inl (ApiError 503)"
    by (rule fetch_failures)
  have entries: "arbitrageOpportunities store_at_0 = [(12, opportunity_at_0)]"
    "createdAt opportunity_at_0 = 0"
    by (simp_all add: opportunity_at_0_def store_at_0_def store_defs
      createArbitrageOpportunity_def Let_def someOpportunity_def
      InsertArbitrageOpportunity.defs ArbitrageOpportunity.defs)
  from C8_failed_fetch_leaves_store_unchanged[OF h] h entries
  show ?thesis by simp
qed

section \<open>Retention of opportunities\<close>

lemma slice0_all: "int (length xs) \<le> limit \<Longrightarrow> slice0 xs limit = xs"
  by (simp add: slice0_def)

lemma listed_subset:
  "set (map fst (getArbitrageOpportunities s limit)) \<subseteq> set (map snd (arbitrageOpportunities s))"
proof -
  have "set (slice0 xs limit) \<subseteq> set xs" for xs :: "ArbitrageOpportunity list"
    by (auto simp: slice0_def dest: in_set_takeD)
  from this[of "sort_key (\<lambda>opp. - createdAt opp) (map snd (arbitrageOpportunities s))"]
  show ?thesis
    by (auto simp: getArbitrageOpportunities_def Let_def image_iff)
qed

lemma listed_all:
  "int (length (arbitrageOpportunities s)) \<le> limit \<Longrightarrow>
   set (map fst (getArbitrageOpportunities s limit)) = set (map snd (arbitrageOpportunities s))"
  by (simp add: getArbitrageOpportunities_def Let_def slice0_all image_image)

lemma cleared_entries:
  "arbitrageOpportunities (clearOldOpportunities s now)
     = filter (\<lambda>p. \<not> (\<exists>opp. (fst p, opp) \<in> set (arbitrageOpportunities s)
                            \<and> createdAt opp < now - 60 * 60 * 1000))
         (arbitrageOpportunities s)"
  by (simp add: clearOldOpportunities_def Let_def delete_old_keys)

lemma cleared_values_fresh:
  assumes "opp \<in> set (map snd (arbitrageOpportunities (clearOldOpportunities s now)))"
  shows "\<not> createdAt opp < now - 60 * 60 * 1000"
proof -
  from assms obtain k where "(k, opp) \<in> set (arbitrageOpportunities (clearOldOpportunities s now))"
    by auto
  then have "(k, opp) \<in> set (arbitrageOpportunities s)"
    and "\<not> (\<exists>opp'. (k, opp') \<in> set (arbitrageOpportunities s)
                 \<and> createdAt opp' < now - 60 * 60 * 1000)"
    by (simp_all add: cleared_entries)
  then show ?thesis
    by blast
qed

lemma cleared_keeps_fresh:
  assumes "distinct (map fst (arbitrageOpportunities s))"
    and "(k, opp) \<in> set (arbitrageOpportunities s)"
    and "\<not> createdAt opp < now - 60 * 60 * 1000"
  shows "(k, opp) \<in> set (arbitrageOpportunities (clearOldOpportunities s now))"
proof -
  have "opp' = opp" if "(k, opp') \<in> set (arbitrageOpportunities s)" for opp'
    using eq_key_imp_eq_value[OF assms(1) that assms(2)] .
  with assms(3)
  have "\<not> (\<exists>opp'. (k, opp') \<in> set (arbitrageOpportunities s)
                 \<and> createdAt opp' < now - 60 * 60 * 1000)"
    by blast
  with assms(2) show ?thesis
    by (simp add: cleared_entries)
qed

lemma cleared_subset:
  "set (arbitrageOpportunities (clearOldOpportunities s now)) \<subseteq> set (arbitrageOpportunities s)"
  by (simp add: cleared_entries)

lemma store_at_1_entries:
  "arbitrageOpportunities store_at_0 = [(12, opportunity_at_0)]"
  "arbitrageOpportunities store_at_1
     = [(12, opportunity_at_0), (13, opportunity_at_0\<lparr>opp_id := 13, createdAt := 1\<rparr>)]"
  "createdAt opportunity_at_0 = 0"
  by (simp_all add: opportunity_at_0_def store_at_0_def store_at_1_def store_defs
      createArbitrageOpportunity_def Let_def someOpportunity_def
      InsertArbitrageOpportunity.defs ArbitrageOpportunity.defs)

lemma crowded_store_listing:
  "opportunity_at_0 \<in> set (map snd (arbitrageOpportunities store_crowded))"
  "opportunity_at_0 \<notin> set (map fst (getArbitrageOpportunities store_crowded 50))"
  by code_simp+

text \<open>
  Claim C3, as the specification states it, fails on the code. \<^verbatim>\<open>getArbitrageOpportunities\<close>
  never reads the clock: an opportunity created at time 0 is still listed when the clock
  shows 3600001, more than the window later, as long as no \<^verbatim>\<open>clearOldOpportunities\<close> has
  run. And the list is cut at \<open>limit\<close>: once fifty newer opportunities are stored, the
  default \<open>limit = 50\<close> leaves the one created at time 0 out at time 1, well inside its
  window.
\<close>

theorem C3_counterexample:
  "createdAt opportunity_at_0 + 60 * 60 * 1000 < 3600001
   \<and> opportunity_at_0 \<in> set (map fst (getArbitrageOpportunities store_at_0 50))
   \<and> 1 < createdAt opportunity_at_0 + 60 * 60 * 1000
   \<and> opportunity_at_0 \<in> set (map snd (arbitrageOpportunities store_crowded))
   \<and> opportunity_at_0 \<notin> set (map fst (getArbitrageOpportunities store_crowded 50))"
proof -
  have window: "createdAt opportunity_at_0 + 60 * 60 * 1000 < 3600001"
      "1 < createdAt opportunity_at_0 + 60 * 60 * 1000"
    by (simp_all add: store_at_1_entries)
  have listed: "opportunity_at_0 \<in> set (map fst (getArbitrageOpportunities store_at_0 50))"
    by (simp add: store_at_1_entries getArbitrageOpportunities_def slice0_def Let_def)
  from window listed crowded_store_listing show ?thesis by blast
qed

text \<open>
  Claim C3, amended. Expiry is the work of \<^verbatim>\<open>clearOldOpportunities\<close>, which the detection
  cycle runs after a successful fetch. For an opportunity stored under a key of a map with
  distinct keys: a pass at a time strictly after \<open>createdAt + 60 min\<close> removes it, so no
  list after the pass returns it; a pass at a time up to \<open>createdAt + 60 min\<close> keeps it; and
  a stored opportunity is listed, at any time, when \<open>limit\<close> is at least the number of
  stored opportunities. The keys of a reachable store are distinct (lemma
  \<open>reachable_hypotheses\<close>).
\<close>

theorem C3_retention_by_expiry_pass:
  assumes "distinct (map fst (arbitrageOpportunities s))"
    and "(k, opp) \<in> set (arbitrageOpportunities s)"
  shows "(createdAt opp + 60 * 60 * 1000 < now \<longrightarrow>
            opp \<notin> set (map fst (getArbitrageOpportunities (clearOldOpportunities s now) limit)))
       \<and> (now \<le> createdAt opp + 60 * 60 * 1000
            \<and> int (length (arbitrageOpportunities (clearOldOpportunities s now))) \<le> limit \<longrightarrow>
            opp \<in> set (map fst (getArbitrageOpportunities (clearOldOpportunities s now) limit)))
       \<and> (int (length (arbitrageOpportunities s)) \<le> limit \<longrightarrow>
            opp \<in> set (map fst (getArbitrageOpportunities s limit)))"
proof (intro conjI impI)
  assume "createdAt opp + 60 * 60 * 1000 < now"
  then have "createdAt opp < now - 60 * 60 * 1000" by simp
  then have "opp \<notin> set (map snd (arbitrageOpportunities (clearOldOpportunities s now)))"
    using cleared_values_fresh[of opp s now] by blast
  then show "opp \<notin> set (map fst (getArbitrageOpportunities (clearOldOpportunities s now) limit))"
    using listed_subset[of "clearOldOpportunities s now" limit] by blast
next
  assume a: "now \<le> createdAt opp + 60 * 60 * 1000
            \<and> int (length (arbitrageOpportunities (clearOldOpportunities s now))) \<le> limit"
  then have "\<not> createdAt opp < now - 60 * 60 * 1000" by simp
  from cleared_keeps_fresh[OF assms this]
  have "opp \<in> set (map snd (arbitrageOpportunities (clearOldOpportunities s now)))"
    by force
  then show "opp \<in> set (map fst (getArbitrageOpportunities (clearOldOpportunities s now) limit))"
    using a by (simp only: listed_all)
next
  assume "int (length (arbitrageOpportunities s)) \<le> limit"
  moreover have "opp \<in> set (map snd (arbitrageOpportunities s))"
    using assms(2) by force
  ultimately show "opp \<in> set (map fst (getArbitrageOpportunities s limit))"
    by (simp only: listed_all)
qed

theorem C3_retention_witness:
  "distinct (map fst (arbitrageOpportunities store_at_1))
   \<and> (12, opportunity_at_0) \<in> set (arbitrageOpportunities store_at_1)
   \<and> createdAt opportunity_at_0 + 60 * 60 * 1000 < 3600001
   \<and> opportunity_at_0
        \<notin> set (map fst (getArbitrageOpportunities (clearOldOpportunities store_at_1 3600001) 50))
   \<and> 3600000 \<le> createdAt opportunity_at_0 + 60 * 60 * 1000
   \<and> int (length (arbitrageOpportunities (clearOldOpportunities store_at_1 3600000))) \<le> 50
   \<and> opportunity_at_0
        \<in> set (map fst (getArbitrageOpportunities (clearOldOpportunities store_at_1 3600000) 50))
   \<and> int (length (arbitrageOpportunities store_at_1)) \<le> 50
   \<and> opportunity_at_0 \<in> set (map fst (getArbitrageOpportunities store_at_1 50))"
proof -
  have h1: "distinct (map fst (arbitrageOpportunities store_at_1))"
   and h2: "(12, opportunity_at_0) \<in> set (arbitrageOpportunities store_at_1)"
   and h3: "createdAt opportunity_at_0 + 60 * 60 * 1000 < 3600001"
   and h4: "3600000 \<le> createdAt opportunity_at_0 + 60 * 60 * 1000"
   and h6: "int (length (arbitrageOpportunities store_at_1)) \<le> 50"
    by (simp_all add: store_at_1_entries)
  have "length (arbitrageOpportunities (clearOldOpportunities store_at_1 3600000))
          \<le> length (arbitrageOpportunities store_at_1)"
    by (simp only: cleared_entries length_filter_le)
  with h6 have h5:
    "int (length (arbitrageOpportunities (clearOldOpportunities store_at_1 3600000))) \<le> 50"
    by simp
  from C3_retention_by_expiry_pass[OF h1 h2, of 3600001 50]
       C3_retention_by_expiry_pass[OF h1 h2, of 3600000 50] h1 h2 h3 h4 h5 h6
  show ?thesis by blast
qed

section \<open>The invariant of reachable stores\<close>

lemma keys_below_mono: "keys_below n m \<Longrightarrow> n \<le> n' \<Longrightarrow> keys_below n' m"
  by (auto simp: keys_below_def)

lemma keys_below_update: "keys_below n m \<Longrightarrow> keys_below (n + 1) (AList.update n v m)"
  by (auto simp: keys_below_def AList.distinct_update AList.dom_update)

lemma keys_below_filter: "keys_below n m \<Longrightarrow> keys_below n (filter P m)"
  by (auto simp: keys_below_def distinct_map_filter)

lemma inv_new: "MemStorage_inv (MemStorage_new now)"
  by (simp add: MemStorage_inv_def keys_below_def MemStorage_new_def initializeDefaultData_def
      defaultExchanges_def defaultPairs_def)

lemma set_update_subset: "set (AList.update k v al) \<subseteq> insert (k, v) (set al)"
  by (induction al) auto

lemma inv_createExchange:
  assumes "MemStorage_inv s"
  shows "MemStorage_inv (snd (createExchange s n url active))"
proof -
  have "\<forall>(k, e) \<in> set (AList.update (currentId s)
            \<lparr>ex_id = currentId s, ex_name = n, ex_apiUrl = url, ex_isActive = active\<rparr>
            (exchanges s)). ex_id e = k"
    using assms set_update_subset[of "currentId s" _ "exchanges s"]
    by (fastforce simp: MemStorage_inv_def)
  then show ?thesis
    using assms
    by (simp add: MemStorage_inv_def createExchange_def Let_def keys_below_update
        keys_below_mono[where n = "currentId s" and n' = "currentId s + 1"])
qed

lemma inv_createTradingPair:
  assumes "MemStorage_inv s"
  shows "MemStorage_inv (snd (createTradingPair s b q n active))"
  using assms
  by (simp add: MemStorage_inv_def createTradingPair_def Let_def keys_below_update
      keys_below_mono[where n = "currentId s" and n' = "currentId s + 1"])

lemma inv_createArbitrageOpportunity:
  assumes "MemStorage_inv s"
  shows "MemStorage_inv (snd (createArbitrageOpportunity s ins now))"
  using assms
  by (simp add: MemStorage_inv_def createArbitrageOpportunity_def Let_def keys_below_update
      keys_below_mono[where n = "currentId s" and n' = "currentId s + 1"])

lemma inv_createTransaction:
  assumes "MemStorage_inv s"
  shows "MemStorage_inv (snd (createTransaction s ins now))"
  using assms
  by (simp add: MemStorage_inv_def createTransaction_def Let_def keys_below_update
      keys_below_mono[where n = "currentId s" and n' = "currentId s + 1"])

lemma inv_clearOldOpportunities:
  assumes "MemStorage_inv s"
  shows "MemStorage_inv (clearOldOpportunities s now)"
proof -
  have "keys_below (currentId s) (arbitrageOpportunities (clearOldOpportunities s now))"
    using assms unfolding cleared_entries by (simp add: MemStorage_inv_def keys_below_filter)
  moreover have "exchanges (clearOldOpportunities s now) = exchanges s"
    "tradingPairs (clearOldOpportunities s now) = tradingPairs s"
    "transactions (clearOldOpportunities s now) = transactions s"
    "currentId (clearOldOpportunities s now) = currentId s"
    by (simp_all add: clearOldOpportunities_def Let_def)
  ultimately show ?thesis
    using assms by (simp add: MemStorage_inv_def)
qed

lemma inv_updateBotSettings:
  "MemStorage_inv s \<Longrightarrow> MemStorage_inv (snd (updateBotSettings s settings now))"
  by (simp add: MemStorage_inv_def updateBotSettings_def Let_def)

lemma inv_compareQuotes:
  "MemStorage_inv (fst st) \<Longrightarrow> MemStorage_inv (fst (compareQuotes rand clock pair exs qa qb st))"
  by (simp add: compareQuotes_def Let_def inv_createArbitrageOpportunity split: option.splits)

lemma inv_innerLoop:
  "MemStorage_inv (fst st) \<Longrightarrow> MemStorage_inv (fst (innerLoop rand clock pair exs qa qs st))"
  by (induction qs arbitrary: st) (simp_all add: inv_compareQuotes)

lemma inv_outerLoop:
  "MemStorage_inv (fst st) \<Longrightarrow> MemStorage_inv (fst (outerLoop rand clock pair exs qs st))"
  by (induction qs arbitrary: st) (simp_all add: inv_innerLoop)

lemma inv_pairsLoop:
  "MemStorage_inv (fst st) \<Longrightarrow>
   MemStorage_inv (fst (pairsLoop rand clock exs prices pairs st))"
  by (induction pairs arbitrary: st) (simp_all add: inv_outerLoop)

lemma inv_calculateArbitrageOpportunities:
  "MemStorage_inv s \<Longrightarrow>
   MemStorage_inv (snd (calculateArbitrageOpportunities rand clock fetched s))"
  by (cases fetched)
     (simp_all add: calculateArbitrageOpportunities_def Let_def inv_pairsLoop
        inv_clearOldOpportunities)

lemma inv_executeOpportunity:
  "MemStorage_inv s \<Longrightarrow> MemStorage_inv (snd (executeOpportunity rand hex now s oppId))"
  using inv_createTransaction[of s]
  by (simp add: executeOpportunity_def Let_def split: prod.splits) (metis snd_conv)

lemma inv_distinct_exchange_ids:
  assumes "MemStorage_inv s"
  shows "distinct (map ex_id (getAllExchanges s))"
proof -
  have "map ex_id (map snd (exchanges s)) = map fst (exchanges s)"
    using assms by (auto simp: MemStorage_inv_def)
  moreover have "distinct (map fst (exchanges s))"
    using assms by (simp add: MemStorage_inv_def keys_below_def)
  ultimately have "distinct (map ex_id (map snd (exchanges s)))" by (simp only:)
  then show ?thesis
    unfolding getAllExchanges_def by (rule distinct_map_filter)
qed

lemma inv_distinct_opportunity_keys:
  "MemStorage_inv s \<Longrightarrow> distinct (map fst (arbitrageOpportunities s))"
  by (simp add: MemStorage_inv_def keys_below_def)

lemma inv_next_id_unused:
  "MemStorage_inv s \<Longrightarrow> currentId s \<notin> fst ` set (transactions s)"
  by (auto simp: MemStorage_inv_def keys_below_def)

lemma reachable_inv: "reachable s \<Longrightarrow> MemStorage_inv s"
  by (induction rule: reachable.induct)
     (simp_all add: inv_new inv_createExchange inv_createTradingPair
        inv_createArbitrageOpportunity inv_clearOldOpportunities inv_createTransaction
        inv_updateBotSettings inv_calculateArbitrageOpportunities inv_executeOpportunity)

text \<open>
  So the hypotheses of the theorems on the in-memory store hold in every reachable store:
  the exchanges read by a cycle have distinct ids, the opportunities are stored under
  distinct keys, and the next id is not a key of the transactions.
\<close>

lemma reachable_hypotheses:
  assumes "reachable s"
  shows "distinct (map ex_id (getAllExchanges s))"
    and "distinct (map fst (arbitrageOpportunities s))"
    and "currentId s \<notin> fst ` set (transactions s)"
  using reachable_inv[OF assms]
  by (simp_all add: inv_distinct_exchange_ids inv_distinct_opportunity_keys inv_next_id_unused)

section \<open>Rounding to a double\<close>

text \<open>
  What the rounding of the arithmetic operations does: \<open>rne\<close> gives a nearest integer and
  \<open>ilog2\<close> the binary exponent of a positive real, so the result of \<open>round_double\<close> has a
  mantissa of at most 53 bits, has the sign of its argument and is within half a unit of
  the last place of it.
\<close>

lemma round_double_examples:
  "round_double (1 / 10) = Num (3602879701896397 / 36028797018963968)"
  "round_double (2 ^ 53 + 1) = Num (2 ^ 53)"
  "round_double (2 ^ 53 + 3) = Num (2 ^ 53 + 4)"
  "round_double (- (1 / 3)) = Num (- (6004799503160661 / 18014398509481984))"
  "js_div (Num 1) (Num 0) = PosInf"
  "js_div (Num 0) (Num 0) = NaN"
  "js_mul (js_div (Num 50) (Num 3000)) (Num 100) = Num (7505999378950827 / 4503599627370496)"
  by code_simp+

lemma pow2_pos: "0 < pow2 e"
  by (simp add: pow2_def)


lemma ilog2_bounds:
  assumes "0 < a"
  shows "pow2 (ilog2 a) \<le> a \<and> a < pow2 (ilog2 a + 1)"
proof (cases "1 \<le> a")
  case True
  define n where "n = \<lfloor>a\<rfloor>"
  define k where "k = bitlen n"
  from True have n: "0 < n" by (simp add: n_def)
  then have k: "1 \<le> k" by (auto simp: k_def bitlen_alt_def)
  from bitlen_bounds[OF n] have b: "2 ^ nat (k - 1) \<le> n" "n < 2 ^ nat k"
    by (simp_all add: k_def)
  have "real_of_int n \<le> a" "a < real_of_int n + 1"
    unfolding n_def by linarith+
  moreover from b(1) have "(2::real) ^ nat (k - 1) \<le> real_of_int n"
    by (metis of_int_le_iff of_int_numeral of_int_power)
  moreover from b(2) have "n + 1 \<le> 2 ^ nat k" by simp
  then have "real_of_int (n + 1) \<le> 2 ^ nat k"
    by (metis of_int_le_iff of_int_numeral of_int_power)
  ultimately have "2 ^ nat (k - 1) \<le> a" "a < 2 ^ nat k" by linarith+
  moreover have "ilog2 a = k - 1"
    using True by (simp add: ilog2_def k_def n_def)
  ultimately show ?thesis using k by (simp add: pow2_def)
next
  case False
  define c where "c = \<lceil>1 / a\<rceil>"
  define k where "k = bitlen (c - 1)"
  from False assms have inv: "1 < 1 / a" by simp
  then have c: "0 < c - 1" unfolding c_def by linarith
  then have k: "1 \<le> k" by (auto simp: k_def bitlen_alt_def)
  from bitlen_bounds[OF c] have b: "2 ^ nat (k - 1) \<le> c - 1" "c - 1 < 2 ^ nat k"
    by (simp_all add: k_def)
  have ce: "real_of_int c - 1 < 1 / a" "1 / a \<le> real_of_int c"
    unfolding c_def by linarith+
  from b(1) have "(2::real) ^ nat (k - 1) \<le> real_of_int (c - 1)"
    by (metis of_int_le_iff of_int_numeral of_int_power)
  with ce(1) have lo: "2 ^ nat (k - 1) < 1 / a" by linarith
  from b(2) have "c \<le> 2 ^ nat k" by simp
  then have "real_of_int c \<le> 2 ^ nat k"
    by (metis of_int_le_iff of_int_numeral of_int_power)
  with ce(2) have hi: "1 / a \<le> 2 ^ nat k" by linarith
  have il: "ilog2 a = - k"
    using False by (simp add: ilog2_def k_def c_def)
  from hi assms have "1 / 2 ^ nat k \<le> a"
    by (simp add: field_simps)
  moreover from lo assms have "a < 1 / 2 ^ nat (k - 1)"
    by (simp add: field_simps)
  moreover have "pow2 (- k) = 1 / 2 ^ nat k"
    using k by (simp add: pow2_def)
  moreover have "pow2 (- k + 1) = 1 / 2 ^ nat (k - 1)"
    using k by (cases "k = 1") (simp_all add: pow2_def)
  ultimately show ?thesis by (simp add: il)
qed

lemma pow2_powr: "pow2 e = 2 powr real_of_int e"
proof (cases "0 \<le> e")
  case True
  then show ?thesis
    by (simp add: pow2_def powr_realpow[symmetric])
next
  case False
  then have "2 powr real_of_int e = 1 / 2 powr real (nat (- e))"
    by (simp add: powr_minus_divide[symmetric])
  with False show ?thesis
    by (simp add: pow2_def powr_realpow[symmetric])
qed

lemma pow2_add: "pow2 (i + j) = pow2 i * pow2 j"
  by (simp add: pow2_powr powr_add)








lemma pow2_less_cancel: "pow2 i < pow2 j \<Longrightarrow> i < j"
  by (simp add: pow2_powr)

text \<open>A number of magnitude \<open>2 ^ 1024\<close> or more overflows.\<close>

lemma round_double_overflow:
  assumes "pow2 1024 \<le> \<bar>x\<bar>"
  shows "round_double x = inf_of (x < 0)"
proof -
  from assms pow2_pos[of 1024] have a: "0 < \<bar>x\<bar>" by linarith
  then have x: "x \<noteq> 0" by simp
  from ilog2_bounds[OF a] assms have "pow2 1024 < pow2 (ilog2 \<bar>x\<bar> + 1)" by linarith
  then have "1024 < ilog2 \<bar>x\<bar> + 1" by (rule pow2_less_cancel)
  then have "971 < max (ilog2 \<bar>x\<bar> - 52) (- 1074)" by simp
  then have c: "971 < max (ilog2 \<bar>x\<bar> - 52) (- 1074)
      \<or> (max (ilog2 \<bar>x\<bar> - 52) (- 1074) = 971
          \<and> 2 ^ 53 \<le> rne (\<bar>x\<bar> / pow2 (max (ilog2 \<bar>x\<bar> - 52) (- 1074))))" ..
  show ?thesis
    unfolding round_double_def Let_def by (simp only: if_not_P[OF x] if_P[OF c])
qed

text \<open>A number of magnitude below \<open>2 ^ -1075\<close> underflows to a zero of its sign.\<close>

lemma round_double_underflow:
  assumes "x \<noteq> 0" and "\<bar>x\<bar> < pow2 (- 1075)"
  shows "round_double x = zero_of (x < 0)"
proof -
  from assms(1) have a: "0 < \<bar>x\<bar>" by simp
  from ilog2_bounds[OF a] assms(2) have "pow2 (ilog2 \<bar>x\<bar>) < pow2 (- 1075)" by linarith
  then have "ilog2 \<bar>x\<bar> < - 1075" by (rule pow2_less_cancel)
  then have e: "max (ilog2 \<bar>x\<bar> - 52) (- 1074) = - 1074" by simp
  have "pow2 (- 1075) = pow2 (- 1074) * pow2 (- 1)"
    by (simp only: pow2_add[symmetric]) simp
  also have "pow2 (- 1) = 1 / 2" by (simp add: pow2_def)
  finally have "\<bar>x\<bar> < pow2 (- 1074) * (1 / 2)" using assms(2) by simp
  then have q: "\<bar>x\<bar> / pow2 (- 1074) < 1 / 2"
    using pow2_pos[of "- 1074"] by (simp add: field_simps)
  have q0: "0 \<le> \<bar>x\<bar> / pow2 (- 1074)"
    using pow2_pos[of "- 1074"] by simp
  from q q0 have "\<lfloor>\<bar>x\<bar> / pow2 (- 1074)\<rfloor> = 0" by linarith
  with q have m: "rne (\<bar>x\<bar> / pow2 (- 1074)) = 0"
    by (simp add: rne_def Let_def)
  have c: "\<not> (971 < (- 1074 :: int) \<or> ((- 1074 :: int) = 971 \<and> 2 ^ 53 \<le> (0 :: int)))" by simp
  show ?thesis
    unfolding round_double_def Let_def e m
    by (simp only: if_not_P[OF assms(1)] if_not_P[OF c] if_True refl)
qed

section \<open>The sign of the margin\<close>






section \<open>The detection loops\<close>

lemma values_update:
  "set (map snd (AList.update k v al)) \<subseteq> insert v (set (map snd al))"
  by (induction al) auto

lemma find_SomeD: "find P xs = Some x \<Longrightarrow> x \<in> set xs \<and> P x"
  by (induction xs) (auto split: if_splits)

lemma created_values:
  "set (map snd (arbitrageOpportunities (snd (createArbitrageOpportunity s ins now))))
     \<subseteq> insert (fst (createArbitrageOpportunity s ins now)) (set (map snd (arbitrageOpportunities s)))"
  using values_update[of "currentId s" _ "arbitrageOpportunities s"]
  by (simp add: createArbitrageOpportunity_def Let_def)

text \<open>The loop body leaves the stored opportunities alone or adds a \<open>detected\<close> one.\<close>

lemma compareQuotes_detected:
  "set (map snd (arbitrageOpportunities (fst (compareQuotes rand clock pair exs qa qb st))))
     \<subseteq> set (map snd (arbitrageOpportunities (fst st))) \<union> {opp. detected exs opp}"
proof (cases "compareQuotes rand clock pair exs qa qb st = st")
  case True
  then show ?thesis by auto
next
  case False
  then obtain exchangeA exchangeB where
    ne: "exchange qa \<noteq> exchange qb" and
    fa: "find (\<lambda>e. ex_name e = exchange qa) exs = Some exchangeA" and
    fb: "find (\<lambda>e. ex_name e = exchange qb) exs = Some exchangeB" and
    gt: "js_gt (js_mul (js_div (js_abs (js_sub (price qa) (price qb)))
                         (js_min (price qa) (price qb))) (Num 100)) (Num 0.5)"
    by (auto simp: compareQuotes_def Let_def split: if_splits option.splits)
  from find_SomeD[OF fa] find_SomeD[OF fb] ne
  have names: "exchangeA \<in> set exs" "exchangeB \<in> set exs"
      "ex_name exchangeA \<noteq> ex_name exchangeB"
    by auto
  obtain ins where
    run: "compareQuotes rand clock pair exs qa qb st
            = (snd (createArbitrageOpportunity (fst st) ins (clock (Suc (snd st)))), Suc (snd st))"
    and ins: "exchangeAId ins = ex_id exchangeA" "exchangeBId ins = ex_id exchangeB"
      "priceA ins = price qa" "priceB ins = price qb"
      "profitMargin ins = js_mul (js_div (js_abs (js_sub (price qa) (price qb)))
                         (js_min (price qa) (price qb))) (Num 100)"
      "estimatedProfit ins = js_mul (js_div (js_abs (js_sub (price qa) (price qb)))
                         (js_min (price qa) (price qb))) (Num 1000)"
      "isExecutable ins = (js_gt (profitMargin ins) (Num 1.5)
                             \<and> js_lt (gasEstimate ins) (estimatedProfit ins))"
    using gt by (simp add: compareQuotes_def Let_def fa fb ne)
  have "detected exs (fst (createArbitrageOpportunity (fst st) ins (clock (Suc (snd st)))))"
    unfolding detected_def using names gt ins
    by (simp add: createArbitrageOpportunity_def Let_def
        InsertArbitrageOpportunity.defs ArbitrageOpportunity.defs) blast
  then show ?thesis
    using created_values[of "fst st" ins "clock (Suc (snd st))"] unfolding run by auto
qed

lemma innerLoop_detected:
  "set (map snd (arbitrageOpportunities (fst (innerLoop rand clock pair exs qa qs st))))
     \<subseteq> set (map snd (arbitrageOpportunities (fst st))) \<union> {opp. detected exs opp}"
proof (induction qs arbitrary: st)
  case Nil
  then show ?case by simp
next
  case (Cons qb qs)
  show ?case
    using Cons.IH[of "compareQuotes rand clock pair exs qa qb st"]
      compareQuotes_detected[of rand clock pair exs qa qb st]
    by auto
qed

lemma outerLoop_detected:
  "set (map snd (arbitrageOpportunities (fst (outerLoop rand clock pair exs qs st))))
     \<subseteq> set (map snd (arbitrageOpportunities (fst st))) \<union> {opp. detected exs opp}"
proof (induction qs arbitrary: st)
  case Nil
  then show ?case by simp
next
  case (Cons qa qs)
  show ?case
    using Cons.IH[of "innerLoop rand clock pair exs qa qs st"]
      innerLoop_detected[of rand clock pair exs qa qs st]
    by auto
qed

lemma pairsLoop_detected:
  "set (map snd (arbitrageOpportunities (fst (pairsLoop rand clock exs prices pairs st))))
     \<subseteq> set (map snd (arbitrageOpportunities (fst st))) \<union> {opp. detected exs opp}"
proof (induction pairs arbitrary: st)
  case Nil
  then show ?case by simp
next
  case (Cons pair pairs)
  show ?case
    using Cons.IH[of "outerLoop rand clock pair exs
                        (filter (\<lambda>p. symbol p = baseSymbol pair) prices) st"]
      outerLoop_detected[of rand clock pair exs
                        "filter (\<lambda>p. symbol p = baseSymbol pair) prices" st]
    by auto
qed

text \<open>
  An opportunity that is in the store after a cycle and was not there before was created
  by the loop body.
\<close>

lemma cycle_detected:
  assumes "opp \<in> set (map snd (arbitrageOpportunities
              (snd (calculateArbitrageOpportunities rand clock (Inr prices) s))))"
    and "opp \<notin> set (map snd (arbitrageOpportunities s))"
  shows "detected (getAllExchanges s) opp"
proof -
  let ?s1 = "clearOldOpportunities s (clock 0)"
  have "opp \<in> set (map snd (arbitrageOpportunities ?s1))
                \<union> {opp. detected (getAllExchanges s) opp}"
    using assms(1)
      pairsLoop_detected[of rand clock "getAllExchanges s" prices "getAllTradingPairs s" "(?s1, 0)"]
    by (auto simp: calculateArbitrageOpportunities_def Let_def)
  moreover have "opp \<notin> set (map snd (arbitrageOpportunities ?s1))"
    using assms(2) cleared_subset[of s "clock 0"] by auto
  ultimately show ?thesis by simp
qed

text \<open>Four cycles on the initial store, each on two quotes of one symbol.\<close>

lemma scenarioA_cycle:
  "arbitrageOpportunities
     (snd (calculateArbitrageOpportunities (\<lambda>_. 1 / 2) (\<lambda>_. 5)
             (Inr [quoteQuickSwap, quoteSushiSwap]) (MemStorage_new 0)))
   = [(12, scenarioA_opportunity)]"
  by code_simp

lemma smallSpread_cycle:
  "arbitrageOpportunities
     (snd (calculateArbitrageOpportunities (\<lambda>_. 1 / 2) (\<lambda>_. 5)
             (Inr [quoteBalancer, quoteCurve]) (MemStorage_new 0)))
   = [(12, smallSpread_opportunity)]"
  by code_simp

lemma roundedMargin_cycle:
  "arbitrageOpportunities
     (snd (calculateArbitrageOpportunities (\<lambda>_. 1 / 2) (\<lambda>_. 5)
             (Inr [quoteBalancer, quoteOneInch]) (MemStorage_new 0)))
   = [(12, roundedMargin_opportunity)]"
  by code_simp

lemma roundedProfit_cycle:
  "arbitrageOpportunities
     (snd (calculateArbitrageOpportunities (\<lambda>_. 1 / 2) (\<lambda>_. 5)
             (Inr [quoteQuickSwap, quoteUniswap]) (MemStorage_new 0)))
   = [(12, roundedProfit_opportunity)]"
  by code_simp

text \<open>
  Claim C1, as the specification states it, fails on the code: the margin of the
  specification is a quotient of reals, the margin that the code stores is a double. On the
  ETH quotes 3000 and 3050 the cycle stores one opportunity, between two different
  exchanges; its margin is the double 1.6666666666666667, which is above the real
  \<open>|3000 - 3050| / min(3000, 3050) * 100 = 5 / 3\<close> and not equal to it.
\<close>

theorem C1_counterexample:
  "arbitrageOpportunities
     (snd (calculateArbitrageOpportunities (\<lambda>_. 1 / 2) (\<lambda>_. 5)
             (Inr [quoteBalancer, quoteOneInch]) (MemStorage_new 0)))
     = [(12, roundedMargin_opportunity)]
   \<and> priceA roundedMargin_opportunity = Num 3000
   \<and> priceB roundedMargin_opportunity = Num 3050
   \<and> profitMargin roundedMargin_opportunity = Num (7505999378950827 / 4503599627370496)
   \<and> profitMargin roundedMargin_opportunity \<noteq> Num (\<bar>3000 - 3050\<bar> / min 3000 3050 * 100)
   \<and> js_lt (Num (\<bar>3000 - 3050\<bar> / min 3000 3050 * 100)) (profitMargin roundedMargin_opportunity)"
proof -
  have fields: "priceA roundedMargin_opportunity = Num 3000
   \<and> priceB roundedMargin_opportunity = Num 3050
   \<and> profitMargin roundedMargin_opportunity = Num (7505999378950827 / 4503599627370496)
   \<and> profitMargin roundedMargin_opportunity \<noteq> Num (\<bar>3000 - 3050\<bar> / min 3000 3050 * 100)
   \<and> js_lt (Num (\<bar>3000 - 3050\<bar> / min 3000 3050 * 100)) (profitMargin roundedMargin_opportunity)"
    by (simp add: roundedMargin_opportunity_def)
  from roundedMargin_cycle fields show ?thesis by (rule conjI)
qed

text \<open>
  Claim C1, amended. Every opportunity that a detection cycle adds to the store names two
  different exchanges, carries the margin \<open>|priceA - priceB| / min(priceA, priceB) * 100\<close>
  computed from its own two prices in double arithmetic, the subtraction, the division and
  the multiplication each rounded to the nearest double, and that margin is strictly above
  0.5. The loop compares the names of the exchanges; their ids are a primary key, so the
  exchanges that the cycle reads have distinct ids, as in every reachable store (lemma
  \<open>reachable_hypotheses\<close>).
\<close>

theorem C1_distinct_venues_rounded_margin:
  assumes "distinct (map ex_id (getAllExchanges s))"
    and "opp \<in> set (map snd (arbitrageOpportunities
            (snd (calculateArbitrageOpportunities rand clock (Inr prices) s))))"
    and "opp \<notin> set (map snd (arbitrageOpportunities s))"
  shows "exchangeAId opp \<noteq> exchangeBId opp
     \<and> profitMargin opp =
           js_mul (js_div (js_abs (js_sub (priceA opp) (priceB opp)))
                          (js_min (priceA opp) (priceB opp))) (Num 100)
     \<and> js_gt (profitMargin opp) (Num 0.5)"
proof -
  have d: "detected (getAllExchanges s) opp"
    using assms(2,3) by (rule cycle_detected)
  then obtain exchangeA exchangeB where
    ex: "exchangeA \<in> set (getAllExchanges s)" "exchangeB \<in> set (getAllExchanges s)"
        "ex_name exchangeA \<noteq> ex_name exchangeB"
        "exchangeAId opp = ex_id exchangeA" "exchangeBId opp = ex_id exchangeB"
    unfolding detected_def by blast
  from ex(3) have "exchangeA \<noteq> exchangeB" by auto
  with assms(1) ex(1,2) have "ex_id exchangeA \<noteq> ex_id exchangeB"
    by (auto simp: distinct_map dest: inj_onD)
  moreover have m: "profitMargin opp =
           js_mul (js_div (js_abs (js_sub (priceA opp) (priceB opp)))
                          (js_min (priceA opp) (priceB opp))) (Num 100)"
      and g: "js_gt (profitMargin opp) (Num 0.5)"
    using d unfolding detected_def by blast+
  ultimately show ?thesis using ex(4,5) by simp
qed

theorem C1_scenarioA_witness:
  "distinct (map ex_id (getAllExchanges (MemStorage_new 0)))
   \<and> scenarioA_opportunity \<in> set (map snd (arbitrageOpportunities
        (snd (calculateArbitrageOpportunities (\<lambda>_. 1 / 2) (\<lambda>_. 5)
                (Inr [quoteQuickSwap, quoteSushiSwap]) (MemStorage_new 0)))))
   \<and> scenarioA_opportunity \<notin> set (map snd (arbitrageOpportunities (MemStorage_new 0)))
   \<and> exchangeAId scenarioA_opportunity \<noteq> exchangeBId scenarioA_opportunity
   \<and> priceA scenarioA_opportunity = Num 50000 \<and> priceB scenarioA_opportunity = Num 50800
   \<and> js_mul (js_div (js_abs (js_sub (Num 50000) (Num 50800)))
                     (js_min (Num 50000) (Num 50800))) (Num 100)
       = Num (3602879701896397 / 2251799813685248)
   \<and> js_gt (Num (3602879701896397 / 2251799813685248)) (Num 0.5)"
proof -
  have h1: "distinct (map ex_id (getAllExchanges (MemStorage_new 0)))"
    by (simp add: store_defs)
  have h2: "scenarioA_opportunity \<in> set (map snd (arbitrageOpportunities
        (snd (calculateArbitrageOpportunities (\<lambda>_. 1 / 2) (\<lambda>_. 5)
                (Inr [quoteQuickSwap, quoteSushiSwap]) (MemStorage_new 0)))))"
    by (simp add: scenarioA_cycle)
  have h3: "scenarioA_opportunity \<notin> set (map snd (arbitrageOpportunities (MemStorage_new 0)))"
    by (simp add: store_defs)
  have f: "priceA scenarioA_opportunity = Num 50000" "priceB scenarioA_opportunity = Num 50800"
    "profitMargin scenarioA_opportunity = Num (3602879701896397 / 2251799813685248)"
    by (simp_all add: scenarioA_opportunity_def)
  note c = C1_distinct_venues_rounded_margin[OF h1 h2 h3, unfolded f]
  from h1 h2 h3 f(1,2) c[THEN conjunct1] c[THEN conjunct2, THEN conjunct1, symmetric]
    c[THEN conjunct2, THEN conjunct2]
  show ?thesis by (intro conjI)
qed

text \<open>
  Claim C2, as the specification states it, fails on the code: the code does not compute
  the profit from the margin. It multiplies the quotient \<open>priceDiff / lowerPrice\<close> once by
  100 for the margin and once by 1000 for the profit, and rounds each product. On the BTC
  quotes 50000 and 51300 the cycle stores one opportunity with the profit 26, while its
  margin divided by 100 and multiplied by 1000 is the double 26.000000000000004.
\<close>

theorem C2_counterexample:
  "arbitrageOpportunities
     (snd (calculateArbitrageOpportunities (\<lambda>_. 1 / 2) (\<lambda>_. 5)
             (Inr [quoteQuickSwap, quoteUniswap]) (MemStorage_new 0)))
     = [(12, roundedProfit_opportunity)]
   \<and> estimatedProfit roundedProfit_opportunity = Num 26
   \<and> js_mul (js_div (profitMargin roundedProfit_opportunity) (Num 100)) (Num 1000)
       = Num (7318349394477057 / 281474976710656)
   \<and> estimatedProfit roundedProfit_opportunity
       \<noteq> js_mul (js_div (profitMargin roundedProfit_opportunity) (Num 100)) (Num 1000)"
proof -
  have p: "estimatedProfit roundedProfit_opportunity = Num 26"
    by (simp add: roundedProfit_opportunity_def)
  have m: "js_mul (js_div (profitMargin roundedProfit_opportunity) (Num 100)) (Num 1000)
       = Num (7318349394477057 / 281474976710656)"
    by code_simp
  have ne: "estimatedProfit roundedProfit_opportunity
       \<noteq> js_mul (js_div (profitMargin roundedProfit_opportunity) (Num 100)) (Num 1000)"
    unfolding p m by simp
  from roundedProfit_cycle p m ne show ?thesis by (intro conjI)
qed

text \<open>
  Claim C2, amended. For every opportunity that a detection cycle adds to the store,
  \<open>isExecutable\<close> holds exactly when the margin is above 1.5 and the gas estimate is
  below the estimated profit, and the estimated profit is the quotient
  \<open>|priceA - priceB| / min(priceA, priceB)\<close> of its own two prices multiplied by the trade
  amount 1000, in double arithmetic.
\<close>

theorem C2_isExecutable_rule_profit_of_quotient:
  assumes "opp \<in> set (map snd (arbitrageOpportunities
            (snd (calculateArbitrageOpportunities rand clock (Inr prices) s))))"
    and "opp \<notin> set (map snd (arbitrageOpportunities s))"
  shows "(isExecutable opp \<longleftrightarrow>
            js_gt (profitMargin opp) (Num 1.5) \<and> js_lt (gasEstimate opp) (estimatedProfit opp))
     \<and> estimatedProfit opp =
           js_mul (js_div (js_abs (js_sub (priceA opp) (priceB opp)))
                          (js_min (priceA opp) (priceB opp))) (Num 1000)"
proof -
  have d: "detected (getAllExchanges s) opp"
    using assms by (rule cycle_detected)
  have e: "estimatedProfit opp =
           js_mul (js_div (js_abs (js_sub (priceA opp) (priceB opp)))
                          (js_min (priceA opp) (priceB opp))) (Num 1000)"
    and x: "isExecutable opp =
           (js_gt (profitMargin opp) (Num 1.5) \<and> js_lt (gasEstimate opp) (estimatedProfit opp))"
    using d unfolding detected_def by blast+
  from e x show ?thesis by simp
qed

theorem C2_smallSpread_witness:
  "smallSpread_opportunity \<in> set (map snd (arbitrageOpportunities
        (snd (calculateArbitrageOpportunities (\<lambda>_. 1 / 2) (\<lambda>_. 5)
                (Inr [quoteBalancer, quoteCurve]) (MemStorage_new 0)))))
   \<and> smallSpread_opportunity \<notin> set (map snd (arbitrageOpportunities (MemStorage_new 0)))
   \<and> \<not> isExecutable smallSpread_opportunity
   \<and> \<not> js_gt (profitMargin smallSpread_opportunity) (Num 1.5)
   \<and> js_lt (gasEstimate smallSpread_opportunity) (estimatedProfit smallSpread_opportunity)
   \<and> js_mul (js_div (js_abs (js_sub (Num 3000) (Num 3030)))
                     (js_min (Num 3000) (Num 3030))) (Num 1000) = Num 10
   \<and> scenarioA_opportunity \<in> set (map snd (arbitrageOpportunities
        (snd (calculateArbitrageOpportunities (\<lambda>_. 1 / 2) (\<lambda>_. 5)
                (Inr [quoteQuickSwap, quoteSushiSwap]) (MemStorage_new 0)))))
   \<and> isExecutable scenarioA_opportunity
   \<and> js_gt (profitMargin scenarioA_opportunity) (Num 1.5)
   \<and> js_lt (gasEstimate scenarioA_opportunity) (estimatedProfit scenarioA_opportunity)"
proof -
  have h1: "smallSpread_opportunity \<in> set (map snd (arbitrageOpportunities
        (snd (calculateArbitrageOpportunities (\<lambda>_. 1 / 2) (\<lambda>_. 5)
                (Inr [quoteBalancer, quoteCurve]) (MemStorage_new 0)))))"
    by (simp add: smallSpread_cycle)
  have h2: "smallSpread_opportunity \<notin> set (map snd (arbitrageOpportunities (MemStorage_new 0)))"
    by (simp add: store_defs)
  have h3: "scenarioA_opportunity \<in> set (map snd (arbitrageOpportunities
        (snd (calculateArbitrageOpportunities (\<lambda>_. 1 / 2) (\<lambda>_. 5)
                (Inr [quoteQuickSwap, quoteSushiSwap]) (MemStorage_new 0)))))"
    by (simp add: scenarioA_cycle)
  have h4: "scenarioA_opportunity \<notin> set (map snd (arbitrageOpportunities (MemStorage_new 0)))"
    by (simp add: store_defs)
  have fs: "priceA smallSpread_opportunity = Num 3000" "priceB smallSpread_opportunity = Num 3030"
    "profitMargin smallSpread_opportunity = Num 1"
    "estimatedProfit smallSpread_opportunity = Num 10"
    "gasEstimate smallSpread_opportunity = Num 7"
    "isExecutable smallSpread_opportunity = False"
    by (simp_all add: smallSpread_opportunity_def)
  note cs = C2_isExecutable_rule_profit_of_quotient[OF h1 h2]
  have small: "\<not> isExecutable smallSpread_opportunity
     \<and> \<not> js_gt (profitMargin smallSpread_opportunity) (Num 1.5)
     \<and> js_lt (gasEstimate smallSpread_opportunity) (estimatedProfit smallSpread_opportunity)"
    using cs[THEN conjunct1] by (simp add: fs js_gt_def)
  have quotient: "js_mul (js_div (js_abs (js_sub (Num 3000) (Num 3030)))
                     (js_min (Num 3000) (Num 3030))) (Num 1000) = Num 10"
    using cs[THEN conjunct2, unfolded fs] by (rule sym)
  have large: "isExecutable scenarioA_opportunity
     \<and> js_gt (profitMargin scenarioA_opportunity) (Num 1.5)
     \<and> js_lt (gasEstimate scenarioA_opportunity) (estimatedProfit scenarioA_opportunity)"
    using C2_isExecutable_rule_profit_of_quotient[OF h3 h4, THEN conjunct1]
    by (simp add: scenarioA_opportunity_def js_gt_def)
  from h1 h2 h3 small quotient large show ?thesis by blast
qed

section \<open>Quotes with a price that is not positive\<close>










section \<open>Executing an opportunity\<close>




section \<open>Updating the settings\<close>








section \<open>The statistics\<close>

text \<open>Sums over the present amounts, and sums and counts under a permutation.\<close>

lemma sum_present:
  "sum_list (map (\<lambda>x. the (f x)) (filter (\<lambda>x. P x \<and> f x \<noteq> None) xs))
     = sum_list (map (\<lambda>x. amount (f x)) (filter P xs))"
  by (induction xs) (auto simp: amount_def)

lemma sum_present_all:
  "sum_list (map (\<lambda>x. the (f x)) (filter (\<lambda>x. f x \<noteq> None) xs))
     = sum_list (map (\<lambda>x. amount (f x)) xs)"
  using sum_present[of f "\<lambda>_. True" xs] by simp

lemma sum_filter_perm:
  fixes g :: "'a \<Rightarrow> real"
  assumes "mset xs = mset ys"
  shows "sum_list (map g (filter P xs)) = sum_list (map g (filter P ys))"
proof -
  have "mset (map g (filter P xs)) = mset (map g (filter P ys))"
    using assms by (simp only: mset_map mset_filter)
  then show ?thesis
    by (metis sum_mset_sum_list)
qed

lemma length_filter_perm:
  assumes "mset xs = mset ys"
  shows "length (filter P xs) = length (filter P ys)"
proof -
  have "mset (filter P xs) = mset (filter P ys)"
    using assms by (simp only: mset_filter)
  then show ?thesis
    by (metis size_mset)
qed

lemma recent_all:
  "int (length (transactions s)) \<le> 1000 \<Longrightarrow>
   mset (getRecentTransactions s 1000) = mset (map snd (transactions s))"
  by (simp add: getRecentTransactions_def slice0_def)

lemma rate_perm:
  assumes "mset r = mset t"
  shows "(if length (filter w r) > 0
          then (real (length (filter succ (filter w r))) / real (length (filter w r))) * 100
          else 0)
       = (if filter w t = [] then 0
          else real (length (filter succ (filter w t))) / real (length (filter w t)) * 100)"
proof -
  have l1: "length (filter w r) = length (filter w t)"
    using assms by (rule length_filter_perm)
  have l2: "length (filter succ (filter w r)) = length (filter succ (filter w t))"
    unfolding filter_filter using assms by (rule length_filter_perm)
  show ?thesis unfolding l1 l2 by simp
qed

lemma profit_perm:
  assumes "mset r = mset t"
  shows "sum_list (map (\<lambda>tx. the (actualProfit tx))
            (filter (\<lambda>tx. status tx = ''success'' \<and> actualProfit tx \<noteq> None) (filter w r)))
       = sum_list (map (\<lambda>tx. amount (actualProfit tx))
            (filter (\<lambda>tx. status tx = ''success'') (filter w t)))"
proof -
  have "sum_list (map (\<lambda>tx. the (actualProfit tx))
          (filter (\<lambda>tx. status tx = ''success'' \<and> actualProfit tx \<noteq> None) (filter w r)))
        = sum_list (map (\<lambda>tx. amount (actualProfit tx))
          (filter (\<lambda>tx. status tx = ''success'') (filter w r)))"
    by (rule sum_present)
  also have "\<dots> = sum_list (map (\<lambda>tx. amount (actualProfit tx))
          (filter (\<lambda>tx. status tx = ''success'') (filter w t)))"
    unfolding filter_filter using assms by (rule sum_filter_perm)
  finally show ?thesis .
qed

lemma gas_perm:
  assumes "mset r = mset t"
  shows "sum_list (map (\<lambda>tx. the (gasUsed tx)) (filter (\<lambda>tx. gasUsed tx \<noteq> None) (filter w r)))
       = sum_list (map (\<lambda>tx. amount (gasUsed tx)) (filter w t))"
proof -
  have "sum_list (map (\<lambda>tx. the (gasUsed tx)) (filter (\<lambda>tx. gasUsed tx \<noteq> None) (filter w r)))
        = sum_list (map (\<lambda>tx. amount (gasUsed tx)) (filter w r))"
    by (rule sum_present_all)
  also have "\<dots> = sum_list (map (\<lambda>tx. amount (gasUsed tx)) (filter w t))"
    using assms by (rule sum_filter_perm)
  finally show ?thesis .
qed

lemma MemStorage_stats_meet_spec:
  assumes "int (length (transactions s)) \<le> 1000"
  shows "successRate (getStatsOverview s now) = spec_successRate (map snd (transactions s)) now"
    and "totalProfit24h (getStatsOverview s now) = spec_totalProfit24h (map snd (transactions s)) now"
    and "gasSpent24h (getStatsOverview s now) = spec_gasSpent24h (map snd (transactions s)) now"
proof -
  have m: "mset (getRecentTransactions s 1000) = mset (map snd (transactions s))"
    using assms by (rule recent_all)
  show "successRate (getStatsOverview s now) = spec_successRate (map snd (transactions s)) now"
    by (simp only: getStatsOverview_def Let_def StatsOverview.simps spec_successRate_def
        window24h_def rate_perm[OF m])
  show "totalProfit24h (getStatsOverview s now) = spec_totalProfit24h (map snd (transactions s)) now"
    by (simp only: getStatsOverview_def Let_def StatsOverview.simps spec_totalProfit24h_def
        window24h_def profit_perm[OF m])
  show "gasSpent24h (getStatsOverview s now) = spec_gasSpent24h (map snd (transactions s)) now"
    by (simp only: getStatsOverview_def Let_def StatsOverview.simps spec_gasSpent24h_def
        window24h_def gas_perm[OF m])
qed

text \<open>
  What the database store computes: its \<open>recentTransactions\<close> are the successful rows, so
  the success rate is 0 or 100 and the gas is summed over the successful rows only. The
  profit is the specified one when every row was executed before \<open>now\<close>.
\<close>

lemma rate_of_successes:
  assumes "\<forall>tx \<in> set r. succ tx"
  shows "(if length (filter w r) > 0
          then (real (length (filter succ (filter w r))) / real (length (filter w r))) * 100
          else 0) = (if filter w r = [] then 0 else 100)"
proof -
  have "filter succ (filter w r) = filter w r"
    using assms by (auto intro: filter_cong)
  then show ?thesis by simp
qed

lemma DatabaseStorage_successRate_values:
  "successRate (DatabaseStorage_getStatsOverview db now)
     = (if filter (\<lambda>tx. executedAt tx > now - 24 * 60 * 60 * 1000)
             (filter (\<lambda>tx. status tx = ''success'' \<and> executedAt tx < now) (tbl_transactions db)) = []
        then 0 else 100)"
proof -
  have "\<forall>tx \<in> set (filter (\<lambda>tx. status tx = ''success'' \<and> executedAt tx < now)
                      (tbl_transactions db)). status tx = ''success''"
    by simp
  from rate_of_successes[OF this] show ?thesis
    by (simp only: DatabaseStorage_getStatsOverview_def Let_def StatsOverview.simps)
qed

lemma DatabaseStorage_gas_of_successes:
  "gasSpent24h (DatabaseStorage_getStatsOverview db now)
     = spec_gasSpent24h
         (filter (\<lambda>tx. status tx = ''success'' \<and> executedAt tx < now) (tbl_transactions db)) now"
proof -
  have "sum_list (map (\<lambda>tx. the (gasUsed tx))
          (filter (\<lambda>tx. gasUsed tx \<noteq> None \<and> w tx) r))
        = sum_list (map (\<lambda>tx. amount (gasUsed tx)) (filter w r))" for w and r :: "Transaction list"
    using sum_present[of gasUsed w r] by (simp add: conj_commute)
  then show ?thesis
    by (simp only: DatabaseStorage_getStatsOverview_def Let_def StatsOverview.simps
        spec_gasSpent24h_def window24h_def)
qed

lemma DatabaseStorage_profit_meets_spec:
  assumes "\<forall>tx \<in> set (tbl_transactions db). executedAt tx < now"
  shows "totalProfit24h (DatabaseStorage_getStatsOverview db now)
     = spec_totalProfit24h (tbl_transactions db) now"
proof -
  let ?w = "\<lambda>tx. now - 24 * 60 * 60 * 1000 < executedAt tx"
  have f: "filter (\<lambda>tx. status tx = ''success'' \<and> executedAt tx < now) (tbl_transactions db)
        = filter (\<lambda>tx. status tx = ''success'') (tbl_transactions db)"
    using assms by (auto intro: filter_cong)
  have g: "filter (\<lambda>tx. ?w tx \<and> status tx = ''success'')
             (filter (\<lambda>tx. status tx = ''success'') (tbl_transactions db))
         = filter (\<lambda>tx. status tx = ''success'') (filter ?w (tbl_transactions db))"
    by (auto intro: filter_cong)
  have h: "sum_list (map (\<lambda>tx. the (actualProfit tx))
          (filter (\<lambda>tx. actualProfit tx \<noteq> None) r))
        = sum_list (map (\<lambda>tx. amount (actualProfit tx)) r)" for r :: "Transaction list"
    by (rule sum_present_all)
  show ?thesis
    by (simp only: DatabaseStorage_getStatsOverview_def Let_def StatsOverview.simps
        spec_totalProfit24h_def window24h_def f g h)
qed

text \<open>
  Claim C5. The success rate is the number of successful transactions of the trailing 24
  hours over the number of all transactions of that window, times 100, and 0 when the
  window is empty: 90 for nine successes in ten. The in-memory store computes this whenever
  it holds at most 1000 transactions (lemma \<open>MemStorage_stats_meet_spec\<close>). The database
  store does not: on the ten transactions of scenario D, nine of them successful, all in
  the window, the specified rate and the in-memory store give 90, the database store gives
  100.
\<close>

theorem C5_database_successRate_scenarioD:
  "length (window24h scenarioD 2000) = 10
   \<and> length (filter (\<lambda>tx. status tx = ''success'') (window24h scenarioD 2000)) = 9
   \<and> spec_successRate scenarioD 2000 = 90
   \<and> successRate (getStatsOverview scenarioD_memory 2000) = 90
   \<and> successRate (DatabaseStorage_getStatsOverview scenarioD_database 2000) = 100"
  by (simp add: DatabaseStorage_getStatsOverview_def getStatsOverview_def
      getRecentTransactions_def slice0_def spec_successRate_def window24h_def
      scenarioD_database_def scenarioD_memory_def scenarioD_def store_defs
      createTransaction_def successfulExecution_def failedExecution_def
      InsertTransaction.defs Transaction.defs numeral_eq_Suc Let_def)

text \<open>
  Claim C6. The profit of 24 hours is the sum of the profits of the successful transactions
  of the window, and the gas of 24 hours is the sum of the gas of all transactions of the
  window, the failed ones included. The in-memory store computes both whenever it holds at
  most 1000 transactions (lemma \<open>MemStorage_stats_meet_spec\<close>). The database store
  computes the profit and not the gas: on scenario D the gas of all ten transactions is 32,
  which the in-memory store reports, and the database store reports 27, the gas of the nine
  successful ones. The profit is 90 in both.
\<close>

theorem C6_database_gasSpent_scenarioD:
  "spec_gasSpent24h scenarioD 2000 = 32
   \<and> gasSpent24h (getStatsOverview scenarioD_memory 2000) = 32
   \<and> gasSpent24h (DatabaseStorage_getStatsOverview scenarioD_database 2000) = 27
   \<and> spec_totalProfit24h scenarioD 2000 = 90
   \<and> totalProfit24h (getStatsOverview scenarioD_memory 2000) = 90
   \<and> totalProfit24h (DatabaseStorage_getStatsOverview scenarioD_database 2000) = 90"
  by (simp add: DatabaseStorage_getStatsOverview_def getStatsOverview_def
      getRecentTransactions_def slice0_def spec_gasSpent24h_def spec_totalProfit24h_def
      window24h_def amount_def scenarioD_database_def scenarioD_memory_def scenarioD_def
      store_defs createTransaction_def successfulExecution_def failedExecution_def
      InsertTransaction.defs Transaction.defs numeral_eq_Suc Let_def)

end
